theory Spec2Isabelle
  imports Complex_Main "HOL-Library.Sublist" "HOL-Library.Char_ord" "HOL-Library.List_Lexorder"
begin

section \<open>Python strings\<close>

text \<open>
  Strings are lists of bytes (the UTF-8 encoding of the Python text). The operations below
  follow the Python built-ins on ASCII; a code point above 127 is several bytes, none of
  which the model treats as whitespace or as a cased letter. Paths use the POSIX separator.
\<close>

definition startswith :: "string \<Rightarrow> string \<Rightarrow> bool" where
  "startswith s p = prefix p s"

definition endswith :: "string \<Rightarrow> string \<Rightarrow> bool" where
  "endswith s p = prefix (rev p) (rev s)"

text \<open>\<open>sub in s\<close> for strings.\<close>

fun contains :: "string \<Rightarrow> string \<Rightarrow> bool" where
  "contains [] sub = (sub = [])"
| "contains (c # cs) sub = (prefix sub (c # cs) \<or> contains cs sub)"

definition is_space :: "char \<Rightarrow> bool" where
  "is_space c = (c \<in> set [CHR 0x09, CHR 0x0A, CHR 0x0B, CHR 0x0C, CHR 0x0D,
                          CHR 0x1C, CHR 0x1D, CHR 0x1E, CHR 0x1F, CHR 0x20])"

definition lstrip :: "string \<Rightarrow> string" where
  "lstrip s = dropWhile is_space s"

definition rstrip :: "string \<Rightarrow> string" where
  "rstrip s = rev (dropWhile is_space (rev s))"

definition strip :: "string \<Rightarrow> string" where
  "strip s = rstrip (lstrip s)"

text \<open>\<open>s.rstrip(chars)\<close> and \<open>s.strip(chars)\<close> with an explicit character set.\<close>

definition rstrip_chars :: "string \<Rightarrow> string \<Rightarrow> string" where
  "rstrip_chars chars s = rev (dropWhile (\<lambda>c. c \<in> set chars) (rev s))"

definition strip_chars :: "string \<Rightarrow> string \<Rightarrow> string" where
  "strip_chars chars s = rstrip_chars chars (dropWhile (\<lambda>c. c \<in> set chars) s)"

text \<open>
  \<open>s.split(sep)\<close> for a non-empty separator: the pieces between the leftmost,
  non-overlapping occurrences. The counter skips the rest of a separator just matched;
  \<open>cur\<close> is the current piece, reversed.
\<close>

fun split_aux :: "string \<Rightarrow> nat \<Rightarrow> string \<Rightarrow> string \<Rightarrow> string list" where
  "split_aux sep k cur [] = [rev cur]"
| "split_aux sep k cur (c # cs) =
     (if 0 < k then split_aux sep (k - 1) cur cs
      else if prefix sep (c # cs) then rev cur # split_aux sep (length sep - 1) [] cs
      else split_aux sep 0 (c # cur) cs)"

definition str_split :: "string \<Rightarrow> string \<Rightarrow> string list" where
  "str_split sep s = split_aux sep 0 [] s"

text \<open>\<open>s.replace(old, new)\<close> for a non-empty \<open>old\<close>.\<close>

fun replace_aux :: "string \<Rightarrow> string \<Rightarrow> nat \<Rightarrow> string \<Rightarrow> string" where
  "replace_aux old new k [] = []"
| "replace_aux old new k (c # cs) =
     (if 0 < k then replace_aux old new (k - 1) cs
      else if prefix old (c # cs) then new @ replace_aux old new (length old - 1) cs
      else c # replace_aux old new 0 cs)"

definition str_replace :: "string \<Rightarrow> string \<Rightarrow> string \<Rightarrow> string" where
  "str_replace old new s = replace_aux old new 0 s"

text \<open>\<open>s.count(sub)\<close> for a non-empty \<open>sub\<close>: non-overlapping occurrences.\<close>

fun count_aux :: "string \<Rightarrow> nat \<Rightarrow> string \<Rightarrow> nat" where
  "count_aux sub k [] = 0"
| "count_aux sub k (c # cs) =
     (if 0 < k then count_aux sub (k - 1) cs
      else if prefix sub (c # cs) then Suc (count_aux sub (length sub - 1) cs)
      else count_aux sub 0 cs)"

definition str_count :: "string \<Rightarrow> string \<Rightarrow> nat" where
  "str_count sub s = count_aux sub 0 s"

text \<open>\<open>s.find(sub)\<close> and \<open>s.rfind(sub)\<close>; \<open>None\<close> stands for \<open>-1\<close>.\<close>

fun str_find :: "string \<Rightarrow> string \<Rightarrow> nat option" where
  "str_find sub [] = (if sub = [] then Some 0 else None)"
| "str_find sub (c # cs) =
     (if prefix sub (c # cs) then Some 0 else map_option Suc (str_find sub cs))"

fun str_rfind :: "string \<Rightarrow> string \<Rightarrow> nat option" where
  "str_rfind sub [] = (if sub = [] then Some 0 else None)"
| "str_rfind sub (c # cs) =
     (case str_rfind sub cs of
        Some i \<Rightarrow> Some (Suc i)
      | None \<Rightarrow> (if prefix sub (c # cs) then Some 0 else None))"

definition lower_letters :: string where
  "lower_letters = ''abcdefghijklmnopqrstuvwxyz''"

definition upper_letters :: string where
  "upper_letters = ''ABCDEFGHIJKLMNOPQRSTUVWXYZ''"

definition upper_char :: "char \<Rightarrow> char" where
  "upper_char c = (case map_of (zip lower_letters upper_letters) c of Some u \<Rightarrow> u | None \<Rightarrow> c)"

definition lower_char :: "char \<Rightarrow> char" where
  "lower_char c = (case map_of (zip upper_letters lower_letters) c of Some l \<Rightarrow> l | None \<Rightarrow> c)"

definition is_alpha :: "char \<Rightarrow> bool" where
  "is_alpha c = (c \<in> set lower_letters \<or> c \<in> set upper_letters)"

definition upper :: "string \<Rightarrow> string" where
  "upper s = map upper_char s"

definition lower :: "string \<Rightarrow> string" where
  "lower s = map lower_char s"

text \<open>
  \<open>s.title()\<close>: a letter that follows a letter is lowered, any other letter is raised.
\<close>

fun title_aux :: "bool \<Rightarrow> string \<Rightarrow> string" where
  "title_aux prev [] = []"
| "title_aux prev (c # cs) =
     (if is_alpha c then (if prev then lower_char c else upper_char c) # title_aux True cs
      else c # title_aux False cs)"

definition title :: "string \<Rightarrow> string" where
  "title s = title_aux False s"

text \<open>\<open>sep.join(xs)\<close>.\<close>

fun join :: "string \<Rightarrow> string list \<Rightarrow> string" where
  "join sep [] = []"
| "join sep [x] = x"
| "join sep (x # y # ys) = x @ sep @ join sep (y # ys)"

text \<open>Decimal rendering of a natural number, as an f-string prints an \<open>int\<close> counter.\<close>

definition digit_char :: "nat \<Rightarrow> char" where
  "digit_char d = ''0123456789'' ! (d mod 10)"

fun show_nat_aux :: "nat \<Rightarrow> nat \<Rightarrow> string \<Rightarrow> string" where
  "show_nat_aux 0 n acc = acc"
| "show_nat_aux (Suc fuel) n acc =
     (if n < 10 then digit_char n # acc
      else show_nat_aux fuel (n div 10) (digit_char n # acc))"

definition show_nat :: "nat \<Rightarrow> string" where
  "show_nat n = show_nat_aux (Suc n) n []"

section \<open>Remote or local\<close>

text \<open>
  \<open>DeepScanner.__init__\<close>:
  \<^verbatim>\<open>self.is_remote = path.startswith('http') or path.endswith('.git')\<close>
\<close>

definition is_remote :: "string \<Rightarrow> bool" where
  "is_remote path = (startswith path ''http'' \<or> endswith path ''.git'')"

section \<open>Values, files and the scanner's state\<close>

text \<open>
  A value loaded by \<open>json.load\<close>. An object is the list of the items of the Python dict,
  in order, with distinct keys. \<open>JNull\<close> is also Python's \<open>None\<close>, the initial
  value of the entry-point fields.
\<close>

datatype json =
    JNull
  | JBool bool
  | JInt int
  | JFloat rat
  | JStr string
  | JArr "json list"
  | JObj "(string \<times> json) list"

text \<open>Truth value of a Python object, as \<open>if x:\<close> and \<open>x or y\<close> use it.\<close>

fun truthy :: "json \<Rightarrow> bool" where
  "truthy JNull = False"
| "truthy (JBool b) = b"
| "truthy (JInt i) = (i \<noteq> 0)"
| "truthy (JFloat r) = (r \<noteq> 0)"
| "truthy (JStr s) = (s \<noteq> [])"
| "truthy (JArr xs) = (xs \<noteq> [])"
| "truthy (JObj kvs) = (kvs \<noteq> [])"

definition py_or :: "json \<Rightarrow> json \<Rightarrow> json" where
  "py_or a b = (if truthy a then a else b)"

datatype exn =
    OSError
  | UnicodeDecodeError
  | JSONDecodeError
  | AttributeError
  | TypeError
  | IndexError
  | Error string

text \<open>
  What opening and reading a file gives: \<open>open\<close> fails, or the bytes are not UTF-8
  (then the string is what \<open>errors='ignore'\<close> leaves of them), or the text.
\<close>

datatype fdata = Unreadable | Undecodable string | Text string

text \<open>
  A file-system object: a file with what reading it gives, or a directory with its entries
  in the order \<open>os.listdir\<close> and \<open>os.walk\<close> meet them. Names are not empty and
  contain no separator.
\<close>

datatype node = File fdata | Dir "(string \<times> node) list"

record stats =
  files_python :: nat
  files_node :: nat
  files_java :: nat
  files_go :: nat
  test_files :: nat
  has_ci :: bool
  linting :: "string set"

record tech_details =
  frameworks :: "string set"
  databases :: "string set"
  auth :: "string set"
  cache :: "string set"

record dependencies =
  deps_python :: "string set"
  deps_node :: "string set"
  deps_java :: "string set"
  deps_go :: "string set"

record entry_points =
  ep_python :: json
  ep_node :: json
  ep_java :: json
  ep_go :: json

record docker =
  dockerfile :: bool
  compose :: bool

record service =
  svc_name :: string
  svc_path :: string
  svc_languages :: "string list"

record service_info =
  si_path :: string
  has_package_json :: bool
  has_requirements :: bool
  has_pom :: bool
  has_go_mod :: bool

record metadata =
  project_name :: json
  username :: string
  repo_name :: string
  repo_url :: string
  languages :: "string set"
  tech_stack :: "string set"
  tech_stack_details :: tech_details
  deps :: dependencies
  scripts :: json
  "structure" :: string
  description :: json
  entry_point :: json
  entry_pts :: entry_points
  entry_point_cmd :: json
  api_endpoints :: "string list"
  license :: string
  modules :: "string list"
  env_vars :: "string set"
  tests :: "string list"
  build_tools :: "string set"
  python_requirements_path :: "string option"
  node_package_json_path :: "string option"
  go_mod_path :: "string option"
  docker_info :: docker
  services :: "service list"
  stat :: stats

text \<open>The dictionary that \<open>DeepScanner.__init__\<close> builds.\<close>

definition init_metadata :: metadata where
  "init_metadata = \<lparr>
     project_name = JStr [],
     username = ''username'',
     repo_name = ''repo'',
     repo_url = ''<repo_url>'',
     languages = {},
     tech_stack = {},
     tech_stack_details = \<lparr>frameworks = {}, databases = {}, auth = {}, cache = {}\<rparr>,
     deps = \<lparr>deps_python = {}, deps_node = {}, deps_java = {}, deps_go = {}\<rparr>,
     scripts = JObj [],
     structure = [],
     description = JStr [],
     entry_point = JNull,
     entry_pts = \<lparr>ep_python = JNull, ep_node = JNull, ep_java = JNull, ep_go = JNull\<rparr>,
     entry_point_cmd = JNull,
     api_endpoints = [],
     license = ''Unlicensed'',
     modules = [],
     env_vars = {},
     tests = [],
     build_tools = {},
     python_requirements_path = None,
     node_package_json_path = None,
     go_mod_path = None,
     docker_info = \<lparr>dockerfile = False, compose = False\<rparr>,
     services = [],
     stat = \<lparr>files_python = 0, files_node = 0, files_java = 0, files_go = 0,
              test_files = 0, has_ci = False, linting = {}\<rparr>
   \<rparr>"

text \<open>
  The scanner object. \<open>service_info\<close> is the dict \<open>_service_info\<close> in insertion
  order; the set \<open>_api_endpoint_set\<close> is never read or written after construction.
\<close>

record scanner =
  original_path :: string
  path :: string
  custom_context :: string
  remote :: bool
  temp_dir :: "string option"
  service_infos :: "(string \<times> service_info) list"
  meta :: metadata

definition new_scanner :: "string \<Rightarrow> string \<Rightarrow> scanner" where
  "new_scanner p ctx = \<lparr>
     original_path = p, path = p, custom_context = ctx, remote = is_remote p,
     temp_dir = None, service_infos = [], meta = init_metadata\<rparr>"

section \<open>The world outside the scanner\<close>

text \<open>
  The file system maps a path to what is there; the trace records the calls that create,
  fill and delete the ephemeral directory.
\<close>

datatype event = Mkdtemp string | Clone string string | Rmtree string

record world =
  fs :: "string \<Rightarrow> node option"
  trace :: "event list"

text \<open>
  Outcomes of the calls into libraries and the operating system, which the scanner does not
  control: \<open>tempfile.mkdtemp\<close> (the directory it creates, or the exception),
  \<open>git.Repo.clone_from\<close> (the entries of the tree it checks out, or \<open>str(e)\<close> of the exception it
  raises), \<open>shutil.rmtree\<close> with the handler \<open>on_rm_error\<close> (whether it ends without
  an exception), \<open>git.Repo(path).remotes.origin.url\<close> (\<open>None\<close> when any step
  raises), and \<open>os.path.basename(os.path.normpath(path))\<close>.
\<close>

record env =
  mkdtemp :: "exn + string"
  clone_from :: "string \<Rightarrow> string + (string \<times> node) list"
  rmtree_ok :: "string \<Rightarrow> bool"
  origin_url :: "string \<Rightarrow> string option"
  basename_normpath :: "string \<Rightarrow> string"

definition path_exists :: "world \<Rightarrow> string \<Rightarrow> bool" where
  "path_exists w p = (fs w p \<noteq> None)"

text \<open>
  \<open>cleanup\<close>: the recursive delete runs when \<open>temp_dir\<close> is set and exists; an exception
  from it is swallowed, and then the directory is still there.
\<close>

definition cleanup :: "env \<Rightarrow> scanner \<Rightarrow> world \<Rightarrow> world" where
  "cleanup E s w =
     (case temp_dir s of
        None \<Rightarrow> w
      | Some d \<Rightarrow>
          if d \<noteq> [] \<and> path_exists w d then
            (if rmtree_ok E d
             then w\<lparr>fs := (fs w)(d := None), trace := trace w @ [Rmtree d]\<rparr>
             else w\<lparr>trace := trace w @ [Rmtree d]\<rparr>)
          else w)"

text \<open>
  \<open>setup_path\<close> returns \<open>self.path\<close> or raises; either way the scanner and the world
  have changed, so the model returns all three. The exception is \<open>None\<close> on a normal return.
\<close>

definition setup_remote_names :: "string \<Rightarrow> metadata \<Rightarrow> metadata" where
  "setup_remote_names orig m =
     (let m1 = m\<lparr>repo_url := orig\<rparr>;
          parts = str_split ''/'' (rstrip_chars ''/'' orig)
      in if 2 \<le> length parts then
           (let rn = str_replace ''.git'' [] (last parts)
            in m1\<lparr>repo_name := rn, username := parts ! (length parts - 2),
                  project_name := JStr rn\<rparr>)
         else m1)"

definition setup_local_names :: "env \<Rightarrow> string \<Rightarrow> metadata \<Rightarrow> metadata" where
  "setup_local_names E p m =
     (let m1 = m\<lparr>project_name := JStr (basename_normpath E p)\<rparr>
      in case origin_url E p of
           None \<Rightarrow> m1
         | Some url \<Rightarrow>
             (let m2 = m1\<lparr>repo_url := url\<rparr>;
                  parts = str_split ''/'' (str_replace ''.git'' [] (rstrip_chars ''/'' url));
                  m3 = m2\<lparr>repo_name := last parts\<rparr>
              in if 2 \<le> length parts
                 then m3\<lparr>username := last (str_split '':'' (parts ! (length parts - 2)))\<rparr>
                 else m3))"

definition setup_path :: "env \<Rightarrow> scanner \<Rightarrow> world \<Rightarrow> exn option \<times> scanner \<times> world" where
  "setup_path E s w =
     (if remote s then
        (case mkdtemp E of
           Inl e \<Rightarrow> (Some e, s, w)
         | Inr d \<Rightarrow>
             (let s1 = s\<lparr>temp_dir := Some d\<rparr>;
                  w1 = w\<lparr>fs := (fs w)(d \<mapsto> Dir []), trace := trace w @ [Mkdtemp d]\<rparr>;
                  w2 = w1\<lparr>trace := trace w1 @ [Clone (original_path s) d]\<rparr>
              in case clone_from E (original_path s) of
                   Inl msg \<Rightarrow> (Some (Error (''Clone failed: '' @ msg)), s1, cleanup E s1 w2)
                 | Inr t \<Rightarrow>
                     (None,
                      s1\<lparr>path := d, meta := setup_remote_names (original_path s) (meta s1)\<rparr>,
                      w2\<lparr>fs := (fs w2)(d \<mapsto> Dir t)\<rparr>)))
      else if \<not> path_exists w (path s) then
        (Some (Error ''Local path does not exist.''), s, w)
      else (None, s\<lparr>meta := setup_local_names E (path s) (meta s)\<rparr>, w))"

section \<open>Library calls taken as parameters\<close>

text \<open>
  The regular expressions of the scanner, by the place that uses them:
  \<^item> \<open>PyClass\<close>: \<^verbatim>\<open>class\s+(\w+)\<close> (findall), \<open>JavaClass\<close>: the same pattern (search);
  \<^item> \<open>PyImport\<close>: \<^verbatim>\<open>^(?:from|import)\s+([\w\.]+)\<close>, multi-line;
  \<^item> \<open>JsImport\<close>: \<^verbatim>\<open>(?:require|from)\s*['"]([@\w./-]+)['"]\<close>;
  \<^item> \<open>GoImport\<close>: \<^verbatim>\<open>"([\w/\.]+)"\<close>;
  \<^item> \<open>JavaImport\<close>: \<^verbatim>\<open>import\s+([\w\.]+);\<close>;
  \<^item> \<open>FlaskMethod\<close>: \<^verbatim>\<open>['"]([A-Z]+)['"]\<close>;
  \<^item> \<open>DjangoPath\<close>: \<^verbatim>\<open>path\(\s*['"]([^'"]+)['"]\<close>;
  \<^item> \<open>FastApiRoute\<close>, \<open>ExpressApp\<close>, \<open>ExpressRouter\<close>: the method and path of
    \<^verbatim>\<open>@app.<method>(\<close>, \<^verbatim>\<open>app.<method>(\<close> and \<^verbatim>\<open>router.<method>(\<close>, ignoring case;
  \<^item> \<open>FlaskRoute\<close>: the path and the text of the \<open>methods\<close> list of \<^verbatim>\<open>@app.route(\<close>;
  \<^item> \<open>EnvVar\<close>: the four alternatives of \<open>_detect_env_vars\<close>, one group each.
\<close>

datatype pattern =
    PyClass | JavaClass | PyImport | JsImport | GoImport | JavaImport
  | FlaskMethod | DjangoPath | FastApiRoute | ExpressApp | ExpressRouter | FlaskRoute | EnvVar

text \<open>
  \<open>re.findall\<close> by the number of groups of the pattern, \<open>json.loads\<close> on the text of a
  file (\<open>None\<close> when it raises), \<open>str()\<close> of a loaded value as an f-string prints it,
  and the order in which Python iterates over a set of strings.
\<close>

record lib =
  findall1 :: "pattern \<Rightarrow> string \<Rightarrow> string list"
  findall2 :: "pattern \<Rightarrow> string \<Rightarrow> (string \<times> string) list"
  findall4 :: "pattern \<Rightarrow> string \<Rightarrow> (string \<times> string \<times> string \<times> string) list"
  json_loads :: "string \<Rightarrow> json option"
  py_str :: "json \<Rightarrow> string"
  set_order :: "string set \<Rightarrow> string list"

text \<open>An f-string field: a string prints as itself.\<close>

definition fmt :: "lib \<Rightarrow> json \<Rightarrow> string" where
  "fmt L v = (case v of JStr s \<Rightarrow> s | _ \<Rightarrow> py_str L v)"

section \<open>Reading files\<close>

text \<open>\<open>open(path, encoding="utf-8")\<close> and reading all of it.\<close>

fun read_strict :: "fdata \<Rightarrow> exn + string" where
  "read_strict Unreadable = Inl OSError"
| "read_strict (Undecodable s) = Inl UnicodeDecodeError"
| "read_strict (Text s) = Inr s"

text \<open>The same with \<open>errors='ignore'\<close>.\<close>

fun read_ignore :: "fdata \<Rightarrow> exn + string" where
  "read_ignore Unreadable = Inl OSError"
| "read_ignore (Undecodable s) = Inr s"
| "read_ignore (Text s) = Inr s"

text \<open>Text mode turns \<open>\r\n\<close> and \<open>\r\<close> into \<open>\n\<close>; iterating gives the lines with their ends.\<close>

fun universal_newlines :: "string \<Rightarrow> string" where
  "universal_newlines [] = []"
| "universal_newlines [c] = (if c = CHR 0x0D then [CHR 0x0A] else [c])"
| "universal_newlines (c # d # cs) =
     (if c = CHR 0x0D \<and> d = CHR 0x0A then CHR 0x0A # universal_newlines cs
      else if c = CHR 0x0D then CHR 0x0A # universal_newlines (d # cs)
      else c # universal_newlines (d # cs))"

fun lines_aux :: "string \<Rightarrow> string \<Rightarrow> string list" where
  "lines_aux cur [] = (if cur = [] then [] else [rev cur])"
| "lines_aux cur (c # cs) =
     (if c = CHR 0x0A then rev (c # cur) # lines_aux [] cs else lines_aux (c # cur) cs)"

definition file_lines :: "string \<Rightarrow> string list" where
  "file_lines s = lines_aux [] (universal_newlines s)"

section \<open>Manifests\<close>

text \<open>
  \<open>_parse_requirements\<close>:
  \<^verbatim>\<open>deps = [line.split('==')[0].strip() for line in f
          if line.strip() and not line.strip().startswith('#')]\<close>
\<close>

definition requirement_name :: "string \<Rightarrow> string" where
  "requirement_name line = strip (hd (str_split ''=='' line))"

definition requirement_line :: "string \<Rightarrow> bool" where
  "requirement_line line = (strip line \<noteq> [] \<and> \<not> startswith (strip line) ''#'')"

definition requirement_names :: "string list \<Rightarrow> string list" where
  "requirement_names ls = map requirement_name (filter requirement_line ls)"

definition python_test_tools :: "string list" where
  "python_test_tools = [''pytest'', ''unittest'', ''nose'', ''mock'']"

definition parse_requirements_body :: "fdata \<Rightarrow> metadata \<Rightarrow> exn + metadata" where
  "parse_requirements_body f m =
     (case read_strict f of
        Inl e \<Rightarrow> Inl e
      | Inr s \<Rightarrow>
          (let ds = requirement_names (file_lines s)
           in Inr (m\<lparr>deps := (deps m)\<lparr>deps_python := deps_python (deps m) \<union> set ds\<rparr>,
                     tests := tests m @ filter (\<lambda>d. d \<in> set python_test_tools) ds\<rparr>)))"

text \<open>\<open>try: ... except Exception: pass\<close> around a body that changes nothing before it fails.\<close>

definition parse_requirements :: "fdata \<Rightarrow> metadata \<Rightarrow> metadata" where
  "parse_requirements f m = (case parse_requirements_body f m of Inl e \<Rightarrow> m | Inr m' \<Rightarrow> m')"

text \<open>\<open>data.get(k)\<close> and \<open>data.get(k, {})\<close> on a dict.\<close>

definition dict_get :: "(string \<times> json) list \<Rightarrow> string \<Rightarrow> json" where
  "dict_get kvs k = (case map_of kvs k of None \<Rightarrow> JNull | Some v \<Rightarrow> v)"

definition dict_get_obj :: "(string \<times> json) list \<Rightarrow> string \<Rightarrow> json" where
  "dict_get_obj kvs k = (case map_of kvs k of None \<Rightarrow> JObj [] | Some v \<Rightarrow> v)"

text \<open>\<open>list(v.keys())\<close>: only a dict has \<open>keys\<close>.\<close>

fun keys_of :: "json \<Rightarrow> exn + string list" where
  "keys_of (JObj kvs) = Inr (map fst kvs)"
| "keys_of v = Inl AttributeError"

definition node_test_tools :: "string list" where
  "node_test_tools = [''jest'', ''mocha'', ''chai'', ''supertest'']"

definition set_main :: "json \<Rightarrow> metadata \<Rightarrow> metadata" where
  "set_main v m =
     (let m1 = (if \<not> truthy (ep_node (entry_pts m))
                then m\<lparr>entry_pts := (entry_pts m)\<lparr>ep_node := v\<rparr>\<rparr> else m)
      in if \<not> truthy (entry_point m1) then m1\<lparr>entry_point := v\<rparr> else m1)"

text \<open>
  The body of \<open>_parse_package_json\<close> on the loaded value. The assignments happen one after
  the other, so an exception leaves the ones already made: the result is the exception, if
  any, and the metadata at that point.
\<close>

definition package_json_data :: "json \<Rightarrow> metadata \<Rightarrow> exn option \<times> metadata" where
  "package_json_data data m =
     (case data of
        JObj kvs \<Rightarrow>
          (let m1 = (if truthy (dict_get kvs ''name'')
                     then m\<lparr>project_name := dict_get kvs ''name''\<rparr> else m);
               m2 = (if truthy (dict_get kvs ''main'') then set_main (dict_get kvs ''main'') m1 else m1)
           in case keys_of (dict_get_obj kvs ''dependencies'') of
                Inl e \<Rightarrow> (Some e, m2)
              | Inr ds \<Rightarrow>
                  (case keys_of (dict_get_obj kvs ''devDependencies'') of
                     Inl e \<Rightarrow> (Some e, m2)
                   | Inr dev \<Rightarrow>
                       (let m3 = m2\<lparr>deps := (deps m2)\<lparr>deps_node := deps_node (deps m2) \<union> set ds\<rparr>\<rparr>;
                            m4 = m3\<lparr>scripts := dict_get_obj kvs ''scripts''\<rparr>;
                            m5 = (if truthy (dict_get kvs ''description'')
                                  then m4\<lparr>description := dict_get kvs ''description''\<rparr> else m4)
                        in (None, m5\<lparr>tests := tests m5 @
                                      filter (\<lambda>d. d \<in> set node_test_tools) (ds @ dev)\<rparr>))))
      | _ \<Rightarrow> (Some AttributeError, m))"

definition parse_package_json_body :: "lib \<Rightarrow> fdata \<Rightarrow> metadata \<Rightarrow> exn option \<times> metadata" where
  "parse_package_json_body L f m =
     (case read_strict f of
        Inl e \<Rightarrow> (Some e, m)
      | Inr s \<Rightarrow>
          (case json_loads L s of
             None \<Rightarrow> (Some JSONDecodeError, m)
           | Some data \<Rightarrow> package_json_data data m))"

definition parse_package_json :: "lib \<Rightarrow> fdata \<Rightarrow> metadata \<Rightarrow> metadata" where
  "parse_package_json L f m = snd (parse_package_json_body L f m)"

section \<open>Source files\<close>

definition STD_LIBS_python :: "string list" where
  "STD_LIBS_python =
     [''os'', ''sys'', ''re'', ''json'', ''math'', ''datetime'', ''time'', ''random'',
      ''subprocess'', ''typing'', ''collections'', ''threading'', ''asyncio'',
      ''logging'', ''argparse'', ''itertools'', ''functools'', ''pathlib'', ''http'',
      ''email'', ''enum'', ''statistics'', ''fractions'']"

definition STD_LIBS_node :: "string list" where
  "STD_LIBS_node =
     [''fs'', ''path'', ''http'', ''https'', ''os'', ''util'', ''events'', ''crypto'',
      ''child_process'', ''cluster'', ''dns'', ''net'', ''stream'', ''querystring'',
      ''url'', ''zlib'', ''timers'']"

definition dq :: string where
  "dq = [CHR 0x22]"

text \<open>Record an entry point: per language and overall, each only if still unset.\<close>

definition mark_entry ::
  "(entry_points \<Rightarrow> json) \<Rightarrow> (json \<Rightarrow> entry_points \<Rightarrow> entry_points) \<Rightarrow> string \<Rightarrow>
   metadata \<Rightarrow> metadata" where
  "mark_entry get put fname m =
     (let m1 = (if \<not> truthy (get (entry_pts m))
                then m\<lparr>entry_pts := put (JStr fname) (entry_pts m)\<rparr> else m)
      in if \<not> truthy (entry_point m1) then m1\<lparr>entry_point := JStr fname\<rparr> else m1)"

definition add_language :: "string \<Rightarrow> metadata \<Rightarrow> metadata" where
  "add_language l m = m\<lparr>languages := insert l (languages m)\<rparr>"

definition analyze_python :: "lib \<Rightarrow> string \<Rightarrow> string \<Rightarrow> metadata \<Rightarrow> metadata" where
  "analyze_python L fname content m =
     (let m1 = add_language ''Python'' m;
          m2 = (if contains content (''if __name__ == '' @ dq @ ''__main__'' @ dq @ '':'')
                   \<or> contains content ''app.run(''
                then mark_entry ep_python (\<lambda>v e. e\<lparr>ep_python := v\<rparr>) fname m1 else m1);
          m3 = m2\<lparr>modules := modules m2 @ findall1 L PyClass content\<rparr>;
          roots = filter (\<lambda>r. r \<notin> set STD_LIBS_python)
                    (map (\<lambda>imp. hd (str_split ''.'' imp)) (findall1 L PyImport content))
      in m3\<lparr>deps := (deps m3)\<lparr>deps_python := deps_python (deps m3) \<union> set roots\<rparr>\<rparr>)"

definition analyze_node :: "lib \<Rightarrow> string \<Rightarrow> string \<Rightarrow> metadata \<Rightarrow> metadata" where
  "analyze_node L fname content m =
     (let m1 = add_language ''Node.js'' m;
          m2 = (if contains content ''app.listen'' \<or> contains content ''server.listen''
                then mark_entry ep_node (\<lambda>v e. e\<lparr>ep_node := v\<rparr>) fname m1 else m1);
          pkgs = map (\<lambda>imp. hd (str_split ''/'' imp))
                   (filter (\<lambda>imp. \<not> startswith imp ''.'' \<and>
                                   hd (str_split ''/'' imp) \<notin> set STD_LIBS_node)
                      (findall1 L JsImport content))
      in m2\<lparr>deps := (deps m2)\<lparr>deps_node := deps_node (deps m2) \<union> set pkgs\<rparr>\<rparr>)"

definition analyze_go :: "lib \<Rightarrow> string \<Rightarrow> string \<Rightarrow> metadata \<Rightarrow> metadata" where
  "analyze_go L fname content m =
     (let m1 = add_language ''Go'' m;
          m2 = (if contains content ''func main()''
                then mark_entry ep_go (\<lambda>v e. e\<lparr>ep_go := v\<rparr>) fname m1 else m1);
          imps = filter (\<lambda>imp. contains imp ''.'' \<or> contains imp ''/'') (findall1 L GoImport content)
      in m2\<lparr>deps := (deps m2)\<lparr>deps_go := deps_go (deps m2) \<union> set imps\<rparr>\<rparr>)"

definition analyze_java :: "lib \<Rightarrow> string \<Rightarrow> string \<Rightarrow> metadata \<Rightarrow> metadata" where
  "analyze_java L fname content m =
     (let m1 = add_language ''Java'' m;
          class_match = (case findall1 L JavaClass content of [] \<Rightarrow> None | c # _ \<Rightarrow> Some c);
          m2 = (case class_match of None \<Rightarrow> m1 | Some c \<Rightarrow> m1\<lparr>modules := modules m1 @ [c]\<rparr>);
          m3 = (if contains content ''public static void main''
                then (let m' = mark_entry ep_java (\<lambda>v e. e\<lparr>ep_java := v\<rparr>) fname m2
                      in case class_match of None \<Rightarrow> m'
                         | Some c \<Rightarrow> m'\<lparr>entry_point_cmd := JStr c\<rparr>)
                else m2);
          imps = filter (\<lambda>imp. \<not> (startswith imp ''java.lang'' \<or> startswith imp ''java.util''
                                    \<or> startswith imp ''java.io''))
                   (findall1 L JavaImport content)
      in m3\<lparr>deps := (deps m3)\<lparr>deps_java := deps_java (deps m3) \<union> set imps\<rparr>\<rparr>)"

text \<open>\<open>_detect_env_vars\<close>: every non-empty group of every match.\<close>

definition detect_env_vars :: "lib \<Rightarrow> string \<Rightarrow> metadata \<Rightarrow> metadata" where
  "detect_env_vars L content m =
     (let names = concat (map (\<lambda>(a, b, c, d). filter (\<lambda>n. n \<noteq> []) [a, b, c, d])
                            (findall4 L EnvVar content))
      in m\<lparr>env_vars := env_vars m \<union> set names\<rparr>)"

text \<open>
  \<open>_detect_api_endpoints\<close>: the endpoints found in this file, sorted and without
  duplicates, are appended to the list unless already there.
\<close>

definition route :: "string \<times> string \<Rightarrow> string" where
  "route mp = upper (fst mp) @ '' '' @ snd mp"

definition found_endpoints :: "lib \<Rightarrow> string \<Rightarrow> string \<Rightarrow> string \<Rightarrow> string list" where
  "found_endpoints L content ext fname =
     (if ext = ''.py'' then
        map route (findall2 L FastApiRoute content)
        @ concat (map (\<lambda>(p, ms). map (\<lambda>me. upper me @ '' '' @ p) (findall1 L FlaskMethod ms))
                    (findall2 L FlaskRoute content))
        @ (if fname \<in> set [''urls.py'', ''routes.py'']
           then map (\<lambda>p. ''* '' @ ''/'' @ strip_chars ''/ '' p) (findall1 L DjangoPath content)
           else [])
      else if ext \<in> set [''.js'', ''.ts''] then
        map route (findall2 L ExpressApp content) @ map route (findall2 L ExpressRouter content)
      else [])"

definition append_new :: "string list \<Rightarrow> string list \<Rightarrow> string list" where
  "append_new acc eps = fold (\<lambda>ep a. if ep \<in> set a then a else a @ [ep]) eps acc"

definition detect_api_endpoints :: "lib \<Rightarrow> string \<Rightarrow> string \<Rightarrow> string \<Rightarrow> metadata \<Rightarrow> metadata" where
  "detect_api_endpoints L content ext fname m =
     m\<lparr>api_endpoints :=
         append_new (api_endpoints m) (sort (remdups (found_endpoints L content ext fname)))\<rparr>"

text \<open>
  \<open>_analyze_code\<close>: nothing is changed before the file has been read, and nothing after
  that raises.
\<close>

definition analyze_code_body ::
  "lib \<Rightarrow> string \<Rightarrow> string \<Rightarrow> fdata \<Rightarrow> metadata \<Rightarrow> exn + metadata" where
  "analyze_code_body L fname ext f m =
     (case read_ignore f of
        Inl e \<Rightarrow> Inl e
      | Inr content \<Rightarrow>
          (let m1 = (if ext = ''.py'' then analyze_python L fname content m
                     else if ext \<in> set [''.js'', ''.ts''] then analyze_node L fname content m
                     else if ext = ''.go'' then analyze_go L fname content m
                     else if ext = ''.java'' then analyze_java L fname content m
                     else m)
           in Inr (detect_api_endpoints L content ext fname (detect_env_vars L content m1))))"

definition analyze_code :: "lib \<Rightarrow> string \<Rightarrow> string \<Rightarrow> fdata \<Rightarrow> metadata \<Rightarrow> metadata" where
  "analyze_code L fname ext f m =
     (case analyze_code_body L fname ext f m of Inl e \<Rightarrow> m | Inr m' \<Rightarrow> m')"

section \<open>Walking the tree\<close>

definition IGNORE_DIRS :: "string list" where
  "IGNORE_DIRS =
     [''.git'', ''node_modules'', ''venv'', ''.env'', ''__pycache__'',
      ''dist'', ''build'', ''target'', ''vendor'', ''.idea'', ''.vscode'',
      ''coverage'', ''.next'', ''__mocks__'', ''assets'', ''bin'', ''obj'', ''out'', ''.settings'']"

definition file_entries :: "(string \<times> node) list \<Rightarrow> (string \<times> fdata) list" where
  "file_entries es = concat (map (\<lambda>(n, x). case x of File d \<Rightarrow> [(n, d)] | Dir _ \<Rightarrow> []) es)"

definition dir_names :: "(string \<times> node) list \<Rightarrow> string list" where
  "dir_names es = concat (map (\<lambda>(n, x). case x of File _ \<Rightarrow> [] | Dir _ \<Rightarrow> [n]) es)"

text \<open>
  \<open>os.walk(root_path)\<close> with \<open>dirs[:] = [d for d in dirs if d not in IGNORE_DIRS]\<close>: one
  triple per directory visited, top down: the names from the root to the directory, the
  subdirectory names kept, and the files. The walk goes on into the kept subdirectories only.
\<close>

type_synonym visit = "string list \<times> string list \<times> (string \<times> fdata) list"

fun walk :: "string list \<Rightarrow> (string \<times> node) list \<Rightarrow> visit list"
  and walk_into :: "string list \<Rightarrow> (string \<times> node) list \<Rightarrow> visit list" where
  "walk rel es =
     (rel, filter (\<lambda>d. d \<notin> set IGNORE_DIRS) (dir_names es), file_entries es) # walk_into rel es"
| "walk_into rel [] = []"
| "walk_into rel ((n, File d) # es) = walk_into rel es"
| "walk_into rel ((n, Dir sub) # es) =
     (if n \<in> set IGNORE_DIRS then [] else walk (rel @ [n]) sub) @ walk_into rel es"

section \<open>Paths\<close>

text \<open>\<open>os.path.join(a, b)\<close> for a relative \<open>b\<close>.\<close>

definition path_join :: "string \<Rightarrow> string \<Rightarrow> string" where
  "path_join a b = (if a = [] \<or> endswith a ''/'' then a @ b else a @ ''/'' @ b)"

text \<open>The directory \<open>root\<close> that \<open>os.walk\<close> reports for the names \<open>rel\<close> below \<open>root_path\<close>.\<close>

definition root_of :: "string \<Rightarrow> string list \<Rightarrow> string" where
  "root_of root_path rel = fold (\<lambda>n p. path_join p n) rel root_path"

text \<open>
  \<open>os.path.splitext(f)[1]\<close> for a file name: from the last dot on, unless only dots come
  before it.
\<close>

definition splitext_ext :: "string \<Rightarrow> string" where
  "splitext_ext f =
     (let r = takeWhile (\<lambda>c. c \<noteq> CHR ''.'') (rev f)
      in if length r = length f then []
         else if dropWhile (\<lambda>c. c = CHR ''.'') (take (length f - length r - 1) f) = [] then []
         else CHR ''.'' # rev r)"

section \<open>Scanning\<close>

text \<open>
  The two glyphs of the tree rendering, as the bytes of the literals in the source.
\<close>

definition glyph_bar :: string where
  "glyph_bar = [CHR 0xE2, CHR 0x80, CHR 0x9A, CHR 0xC3, CHR 0xAE, CHR 0xC3, CHR 0x87]"

definition glyph_tee :: string where
  "glyph_tee = [CHR 0xE2, CHR 0x80, CHR 0x9A, CHR 0xC3, CHR 0xAE, CHR 0xC3, CHR 0xBA,
                CHR 0xE2, CHR 0x80, CHR 0x9A, CHR 0xC3, CHR 0xAE, CHR 0xC3, CHR 0x84,
                CHR 0xE2, CHR 0x80, CHR 0x9A, CHR 0xC3, CHR 0xAE, CHR 0xC3, CHR 0x84]"

definition tree_exts :: "string list" where
  "tree_exts = [''.java'', ''.py'', ''.js'', ''.ts'', ''.go'', ''.json'', ''.xml'', ''.md'',
                ''.yml'', ''.yaml'']"

definition endswith_any :: "string \<Rightarrow> string list \<Rightarrow> bool" where
  "endswith_any s sufs = list_ex (endswith s) sufs"

definition tree_lines_of :: "visit \<Rightarrow> string list" where
  "tree_lines_of v =
     (case v of (rel, dirs, files) \<Rightarrow>
        if length rel < 4 then
          (let indent = concat (replicate (length rel) (glyph_bar @ ''   ''))
           in (if 0 < length rel then [indent @ glyph_tee @ '' '' @ last rel @ ''/''] else [])
              @ map (\<lambda>f. indent @ glyph_bar @ ''   '' @ f)
                  (filter (\<lambda>f. endswith_any f tree_exts) (map fst files)))
        else [])"

definition new_service_info :: "string \<Rightarrow> service_info" where
  "new_service_info n = \<lparr>si_path = n, has_package_json = False, has_requirements = False,
                          has_pom = False, has_go_mod = False\<rparr>"

definition register_service :: "string \<Rightarrow> scanner \<Rightarrow> scanner" where
  "register_service n s =
     (if n \<in> fst ` set (service_infos s) then s
      else s\<lparr>service_infos := service_infos s @ [(n, new_service_info n)]\<rparr>)"

text \<open>\<open>if top_service: self._service_info[top_service][flag] = True\<close>.\<close>

definition flag_service ::
  "string option \<Rightarrow> (service_info \<Rightarrow> service_info) \<Rightarrow> scanner \<Rightarrow> scanner" where
  "flag_service svc upd s =
     (case svc of
        None \<Rightarrow> s
      | Some n \<Rightarrow>
          if n = [] then s
          else s\<lparr>service_infos := map (\<lambda>(k, i). if k = n then (k, upd i) else (k, i))
                                      (service_infos s)\<rparr>)"

definition on_meta :: "(metadata \<Rightarrow> metadata) \<Rightarrow> scanner \<Rightarrow> scanner" where
  "on_meta g s = s\<lparr>meta := g (meta s)\<rparr>"

definition on_stat :: "(stats \<Rightarrow> stats) \<Rightarrow> scanner \<Rightarrow> scanner" where
  "on_stat g s = on_meta (\<lambda>m. m\<lparr>stat := g (stat m)\<rparr>) s"

definition ci_files :: "string list" where
  "ci_files = [''circle.yml'', ''.gitlab-ci.yml'', ''azure-pipelines.yml'',
               ''bitbucket-pipelines.yml'', ''.travis.yml'']"

definition scan_config_names :: "string \<Rightarrow> scanner \<Rightarrow> scanner" where
  "scan_config_names f s =
     (let s1 = (if f \<in> set ci_files then on_stat (\<lambda>st. st\<lparr>has_ci := True\<rparr>) s else s);
          s2 = (if startswith f ''.eslintrc''
                   \<or> f \<in> set [''.prettierrc'', ''.prettierrc.js'', ''.prettierrc.json'']
                then on_stat (\<lambda>st. st\<lparr>linting := insert ''JavaScript/TypeScript'' (linting st)\<rparr>) s1
                else s1);
          s3 = (if f \<in> set [''pylintrc'', ''.flake8'']
                then on_stat (\<lambda>st. st\<lparr>linting := insert ''Python'' (linting st)\<rparr>) s2 else s2);
          s4 = (if f = ''pyproject.toml''
                then on_stat (\<lambda>st. st\<lparr>linting := insert ''Python (pyproject)'' (linting st)\<rparr>) s3
                else s3);
          s5 = (if f = ''Dockerfile''
                then on_meta (\<lambda>m. m\<lparr>docker_info := (docker_info m)\<lparr>dockerfile := True\<rparr>\<rparr>) s4
                else s4)
      in if f \<in> set [''docker-compose.yml'', ''docker-compose.yaml'']
         then on_meta (\<lambda>m. m\<lparr>docker_info := (docker_info m)\<lparr>compose := True\<rparr>\<rparr>) s5
         else s5)"

text \<open>
  The manifest branch of the loop body; \<open>relp\<close> is
  \<open>os.path.relpath(filepath, self.path)\<close>.
\<close>

definition scan_manifest ::
  "lib \<Rightarrow> string option \<Rightarrow> string \<Rightarrow> string \<Rightarrow> fdata \<Rightarrow> scanner \<Rightarrow> scanner" where
  "scan_manifest L svc relp f d s =
     (if f = ''package.json'' then
        on_meta (parse_package_json L d)
          (flag_service svc (\<lambda>i. i\<lparr>has_package_json := True\<rparr>)
            (on_meta (\<lambda>m. add_language ''Node.js''
                        (if node_package_json_path m = None
                         then m\<lparr>node_package_json_path := Some relp\<rparr> else m)) s))
      else if f = ''requirements.txt'' then
        on_meta (parse_requirements d)
          (flag_service svc (\<lambda>i. i\<lparr>has_requirements := True\<rparr>)
            (on_meta (\<lambda>m. add_language ''Python''
                        (if python_requirements_path m = None
                         then m\<lparr>python_requirements_path := Some relp\<rparr> else m)) s))
      else if f = ''pom.xml'' then
        flag_service svc (\<lambda>i. i\<lparr>has_pom := True\<rparr>)
          (on_meta (\<lambda>m. (add_language ''Java'' m)\<lparr>build_tools := insert ''Maven'' (build_tools m)\<rparr>) s)
      else if f = ''build.gradle'' then
        on_meta (\<lambda>m. (add_language ''Java'' m)\<lparr>build_tools := insert ''Gradle'' (build_tools m)\<rparr>) s
      else if f = ''go.mod'' then
        flag_service svc (\<lambda>i. i\<lparr>has_go_mod := True\<rparr>)
          (on_meta (\<lambda>m. (if go_mod_path m = None then (add_language ''Go'' m)\<lparr>go_mod_path := Some relp\<rparr>
                          else add_language ''Go'' m)) s)
      else s)"

definition source_exts :: "string list" where
  "source_exts = [''.py'', ''.js'', ''.ts'', ''.java'', ''.go'']"

definition count_source :: "string \<Rightarrow> stats \<Rightarrow> stats" where
  "count_source ext st =
     (if ext = ''.py'' then st\<lparr>files_python := files_python st + 1\<rparr>
      else if ext \<in> set [''.js'', ''.ts''] then st\<lparr>files_node := files_node st + 1\<rparr>
      else if ext = ''.java'' then st\<lparr>files_java := files_java st + 1\<rparr>
      else if ext = ''.go'' then st\<lparr>files_go := files_go st + 1\<rparr>
      else st)"

definition is_test_file :: "string \<Rightarrow> string \<Rightarrow> string \<Rightarrow> bool" where
  "is_test_file dirp f ext =
     (if ext = ''.py'' then
        startswith f ''test_'' \<or> endswith f ''_test.py'' \<or> ''tests'' \<in> set (str_split ''/'' dirp)
      else if ext \<in> set [''.js'', ''.ts''] then
        endswith_any f [''.test.js'', ''.spec.js'', ''.test.ts'', ''.spec.ts'']
        \<or> ''__tests__'' \<in> set (str_split ''/'' dirp)
      else False)"

definition scan_source :: "lib \<Rightarrow> string \<Rightarrow> string \<Rightarrow> fdata \<Rightarrow> scanner \<Rightarrow> scanner" where
  "scan_source L dirp f d s =
     (let ext = lower (splitext_ext f)
      in if ext \<in> set source_exts then
           on_meta (analyze_code L f ext d)
             (on_stat (\<lambda>st. if is_test_file dirp f ext then st\<lparr>test_files := test_files st + 1\<rparr> else st)
               (on_stat (count_source ext) s))
         else s)"

definition scan_file ::
  "lib \<Rightarrow> string \<Rightarrow> string list \<Rightarrow> string \<times> fdata \<Rightarrow> scanner \<Rightarrow> scanner" where
  "scan_file L root_path rel fd s =
     (case fd of (f, d) \<Rightarrow>
        scan_source L (root_of root_path rel) f d
          (scan_manifest L (if rel = [] then None else Some (hd rel)) (join ''/'' (rel @ [f])) f d
            (scan_config_names f s)))"

text \<open>The body of the loop over \<open>os.walk\<close>, without the tree lines.\<close>

definition scan_visit :: "lib \<Rightarrow> string \<Rightarrow> visit \<Rightarrow> scanner \<Rightarrow> scanner" where
  "scan_visit L root_path v s =
     (case v of (rel, dirs, files) \<Rightarrow>
        (let s1 = (if endswith (root_of root_path rel) ''.github'' \<and> ''workflows'' \<in> set dirs
                   then on_stat (\<lambda>st. st\<lparr>has_ci := True\<rparr>) s else s);
             s2 = (if rel \<noteq> [] then register_service (hd rel) s1 else s1)
         in fold (scan_file L root_path rel) files s2))"

definition render_structure :: "string list \<Rightarrow> string" where
  "render_structure tree_lines =
     ''```text'' @ ''\<newline>'' @ ''.'' @ ''\<newline>'' @ join ''\<newline>'' tree_lines @ ''\<newline>'' @ ''```''"

definition scan_tree :: "lib \<Rightarrow> string \<Rightarrow> (string \<times> node) list \<Rightarrow> scanner \<Rightarrow> scanner" where
  "scan_tree L root_path es s =
     (let vs = walk [] es
      in on_meta (\<lambda>m. m\<lparr>structure := render_structure (concat (map tree_lines_of vs))\<rparr>)
           (fold (scan_visit L root_path) vs s))"

section \<open>License, services, tech stack, description\<close>

definition classify_license :: "string \<Rightarrow> string" where
  "classify_license content =
     (if contains content ''MIT'' then ''MIT''
      else if contains content ''APACHE'' then ''Apache 2.0''
      else if contains content ''GNU'' \<or> contains content ''GPL'' then ''GPL''
      else ''See LICENSE file'')"

definition license_name :: "string \<Rightarrow> bool" where
  "license_name f = (startswith (upper f) ''LICENSE'' \<or> startswith (upper f) ''COPYING'')"

text \<open>
  \<open>_scan_license\<close>: only the first entry of the root with such a name is looked at; when
  it cannot be opened (a directory, an unreadable file) the license stays as it was.
  \<open>read(200)\<close> takes the first 200 characters of the text after the translation of line
  ends; a character is a byte here, which is the same for ASCII text.
\<close>

definition scan_license :: "(string \<times> node) list \<Rightarrow> metadata \<Rightarrow> metadata" where
  "scan_license es m =
     (case filter (\<lambda>(f, x). license_name f) es of
        [] \<Rightarrow> m
      | (f, x) # _ \<Rightarrow>
          (case x of
             Dir _ \<Rightarrow> m
           | File d \<Rightarrow>
               (case read_ignore d of
                  Inl e \<Rightarrow> m
                | Inr s \<Rightarrow> m\<lparr>license := classify_license (upper (take 200 (universal_newlines s)))\<rparr>)))"

definition service_of :: "string \<times> service_info \<Rightarrow> service" where
  "service_of ni =
     (case ni of (n, i) \<Rightarrow>
        \<lparr>svc_name = n, svc_path = si_path i,
         svc_languages =
           (if has_package_json i then [''Node.js''] else [])
           @ (if has_requirements i then [''Python''] else [])
           @ (if has_pom i then [''Java''] else [])
           @ (if has_go_mod i then [''Go''] else [])\<rparr>)"

definition finalize_services :: "scanner \<Rightarrow> scanner" where
  "finalize_services s =
     on_meta (\<lambda>m. m\<lparr>services := services m @ map service_of (service_infos s)\<rparr>) s"

definition add_if :: "bool \<Rightarrow> string \<Rightarrow> string set \<Rightarrow> string set" where
  "add_if b x S = (if b then insert x S else S)"

definition infer_frameworks :: "string set \<Rightarrow> string set \<Rightarrow> string set \<Rightarrow> string set \<Rightarrow> string set \<Rightarrow> string set" where
  "infer_frameworks py nd jv go S =
     add_if (''echo'' \<in> go) ''Echo''
     (add_if (''gin'' \<in> go) ''Gin''
     (add_if (\<exists>d\<in>jv. contains d ''spring'') ''Spring/Spring Boot''
     (add_if (''koa'' \<in> nd) ''Koa''
     (add_if (''nest'' \<in> nd \<or> ''nestjs'' \<in> nd) ''NestJS''
     (add_if (''nuxt'' \<in> nd \<or> ''nuxt.js'' \<in> nd) ''Nuxt.js''
     (add_if (''next'' \<in> nd \<or> ''next.js'' \<in> nd) ''Next.js''
     (add_if (''express'' \<in> nd) ''Express''
     (add_if (''fastapi'' \<in> py) ''FastAPI''
     (add_if (''flask'' \<in> py) ''Flask''
     (add_if (''django'' \<in> py) ''Django'' S))))))))))"

definition infer_databases :: "string set \<Rightarrow> string set \<Rightarrow> string set \<Rightarrow> string set" where
  "infer_databases py nd S =
     add_if (''redis'' \<in> nd \<or> ''ioredis'' \<in> nd) ''Redis''
     (add_if (''mysql2'' \<in> nd) ''MySQL''
     (add_if (''pg'' \<in> nd \<or> ''pg-promise'' \<in> nd) ''PostgreSQL''
     (add_if (''mongoose'' \<in> nd) ''MongoDB''
     (add_if (''sqlalchemy'' \<in> py) ''SQL (SQLAlchemy)''
     (add_if (''pymongo'' \<in> py \<or> ''motor'' \<in> py) ''MongoDB''
     (add_if (''mysqlclient'' \<in> py \<or> ''pymysql'' \<in> py) ''MySQL''
     (add_if (''psycopg2'' \<in> py \<or> ''psycopg2-binary'' \<in> py) ''PostgreSQL'' S)))))))"

definition infer_auth :: "string set \<Rightarrow> string set \<Rightarrow> string set \<Rightarrow> string set" where
  "infer_auth py nd S =
     add_if (''djangorestframework-simplejwt'' \<in> py) ''DRF + JWT''
     (add_if (''django-allauth'' \<in> py) ''Django Allauth''
     (add_if (''passport'' \<in> nd) ''Passport.js''
     (add_if (''jsonwebtoken'' \<in> nd \<or> ''jwt'' \<in> py) ''JWT'' S)))"

definition infer_cache :: "string set \<Rightarrow> string set \<Rightarrow> string set \<Rightarrow> string set" where
  "infer_cache py nd S =
     add_if (''redis'' \<in> nd \<or> ''ioredis'' \<in> nd \<or> ''redis'' \<in> py) ''Redis'' S"

text \<open>\<open>_infer_tech_stack\<close>: the details from the lowered dependency names, then the flat labels.\<close>

definition infer_tech_stack :: "metadata \<Rightarrow> metadata" where
  "infer_tech_stack m =
     (let py = lower ` deps_python (deps m); nd = lower ` deps_node (deps m);
          jv = lower ` deps_java (deps m); go = lower ` deps_go (deps m);
          t = tech_stack_details m;
          t' = \<lparr>frameworks = infer_frameworks py nd jv go (frameworks t),
                databases = infer_databases py nd (databases t),
                auth = infer_auth py nd (auth t),
                cache = infer_cache py nd (cache t)\<rparr>
      in m\<lparr>tech_stack_details := t',
           tech_stack := tech_stack m
             \<union> (\<lambda>x. ''Framework: '' @ x) ` frameworks t'
             \<union> (\<lambda>x. ''Database: '' @ x) ` databases t'
             \<union> (\<lambda>x. ''Auth: '' @ x) ` auth t'
             \<union> (\<lambda>x. ''Cache: '' @ x) ` cache t'\<rparr>)"

definition project_kind :: "string \<Rightarrow> string" where
  "project_kind name =
     (if contains name ''Api'' then ''RESTful API''
      else if contains name ''Web'' \<or> contains name ''Ui'' then ''Web Application''
      else if contains name ''Lib'' \<or> contains name ''Sdk'' then ''Library''
      else if contains name ''Management'' \<or> contains name ''System'' then ''Management System''
      else ''Software Solution'')"

text \<open>\<open>sorted(S)\<close> of a set, and its first element when the set is not empty.\<close>

definition sorted_of :: "string set \<Rightarrow> string list" where
  "sorted_of S = sorted_list_of_set S"

text \<open>
  \<open>_generate_smart_description\<close>: the project name must be a string, since \<open>replace\<close> is
  called on it.
\<close>

definition generate_smart_description :: "metadata \<Rightarrow> exn + string" where
  "generate_smart_description m =
     (case project_name m of
        JStr pn \<Rightarrow>
          (let name = title (str_replace ''_'' '' '' (str_replace ''-'' '' '' pn));
               d0 = ''**'' @ name @ ''** is a '' @ project_kind name;
               d1 = (if languages m \<noteq> {}
                     then d0 @ '' built with **'' @ hd (sorted_of (languages m)) @ ''**'' else d0);
               d2 = (if frameworks (tech_stack_details m) \<noteq> {}
                     then d1 @ '', leveraging **'' @ hd (sorted_of (frameworks (tech_stack_details m)))
                             @ ''** for the architecture''
                     else d1);
               d3 = (if databases (tech_stack_details m) \<noteq> {}
                     then d2 @ '' and **'' @ hd (sorted_of (databases (tech_stack_details m)))
                             @ ''** for data storage''
                     else d2)
           in Inr (d3 @ ''.''))
      | _ \<Rightarrow> Inl AttributeError)"

text \<open>
  \<open>scan\<close>. \<open>os.listdir\<close> raises when the path is not a directory; the description is
  synthesized only when no manifest gave one.
\<close>

definition scan :: "lib \<Rightarrow> node \<Rightarrow> scanner \<Rightarrow> exn + scanner" where
  "scan L x s =
     (case x of
        File d \<Rightarrow> Inl OSError
      | Dir es \<Rightarrow>
          (let s1 = on_meta (scan_license es) s;
               s2 = scan_tree L (path s) es s1;
               s3 = finalize_services s2;
               s4 = on_meta infer_tech_stack s3
           in if \<not> truthy (description (meta s4)) then
                (case generate_smart_description (meta s4) of
                   Inl e \<Rightarrow> Inl e
                 | Inr d \<Rightarrow> Inr (on_meta (\<lambda>m. m\<lparr>description := JStr d\<rparr>) s4))
              else Inr s4))"

section \<open>Diagrams\<close>

definition nl :: string where
  "nl = [CHR 0x0A]"

definition fence :: string where
  "fence = ''```''"

definition fence_mermaid :: string where
  "fence_mermaid = ''```mermaid''"

text \<open>The entry node of the class diagram: a file name loses everything from its first dot.\<close>

definition chart_entry :: "metadata \<Rightarrow> json" where
  "chart_entry m =
     (let entry = py_or (entry_point_cmd m) (py_or (entry_point m) (JStr ''Main''))
      in case entry of
           JStr e \<Rightarrow> (if endswith e ''.py'' \<or> endswith e ''.java''
                       then JStr (hd (str_split ''.'' e)) else entry)
         | _ \<Rightarrow> entry)"

definition class_lines :: "lib \<Rightarrow> metadata \<Rightarrow> string" where
  "class_lines L m =
     (let entry = chart_entry m
      in ''    '' @ fmt L entry @ '' --> Logic_Layer'' @ nl
         @ concat (map (\<lambda>md. ''    Logic_Layer --> '' @ md @ nl)
                     (filter (\<lambda>md. JStr md \<noteq> entry) (take 6 (modules m)))))"

definition db_deps :: "string list" where
  "db_deps = [''mongoose'', ''mongodb'', ''pg'', ''mysql'', ''mysql2'', ''sequelize'']"

definition cache_deps :: "string list" where
  "cache_deps = [''redis'', ''ioredis'']"

definition dep_line :: "string \<Rightarrow> string \<Rightarrow> string" where
  "dep_line backend dep =
     (if dep \<in> set db_deps
      then ''    '' @ backend @ '' --> '' @ dep @ ''[('' @ dep @ '' DB)]'' @ nl
      else if dep \<in> set cache_deps
      then ''    '' @ backend @ '' --> '' @ dep @ ''(('' @ dep @ '' Cache))'' @ nl
      else [])"

definition component_lines :: "lib \<Rightarrow> metadata \<Rightarrow> string" where
  "component_lines L m =
     (let backend = fmt L (py_or (entry_point m) (JStr ''Server''))
      in ''    User[User] --> UI[Client]'' @ nl
         @ ''    UI --> '' @ backend @ nl
         @ concat (map (dep_line backend)
                     (set_order L (deps_node (deps m) \<union> deps_python (deps m)))))"

definition architecture_chart :: "lib \<Rightarrow> metadata \<Rightarrow> string" where
  "architecture_chart L m =
     fence_mermaid @ nl @ ''graph TD'' @ nl
     @ (if (''Java'' \<in> languages m \<or> ''Python'' \<in> languages m) \<and> modules m \<noteq> []
        then class_lines L m else component_lines L m)
     @ fence @ nl @ nl"

definition flow_db_deps :: "string list" where
  "flow_db_deps = [''mongoose'', ''mongodb'', ''sqlalchemy'', ''pymongo'', ''mysql'',
                   ''mysql2'', ''pg'', ''psycopg2'', ''psycopg2-binary'']"

definition has_db :: "metadata \<Rightarrow> bool" where
  "has_db m =
     ((\<exists>t\<in>tech_stack m. contains t ''Database'')
      \<or> (\<exists>d\<in>deps_python (deps m) \<union> deps_node (deps m) \<union> deps_java (deps m) \<union> deps_go (deps m).
            d \<in> set flow_db_deps))"

text \<open>The sequence diagram, given whether a database was detected.\<close>

definition flow_text :: "bool \<Rightarrow> string" where
  "flow_text db =
     fence_mermaid @ nl @ ''sequenceDiagram'' @ nl
     @ ''    participant User'' @ nl
     @ ''    participant System'' @ nl
     @ (if db then ''    participant DB as Database'' @ nl else [])
     @ ''    User->>System: Request'' @ nl
     @ ''    System->>System: Process Logic'' @ nl
     @ (if db
        then ''    System->>DB: Query Data'' @ nl @ ''    DB-->>System: Return Data'' @ nl else [])
     @ ''    System-->>User: Response'' @ nl @ fence"

definition flow_chart :: "metadata \<Rightarrow> string" where
  "flow_chart m = flow_text (has_db m)"

definition generate_diagrams :: "lib \<Rightarrow> metadata \<Rightarrow> string" where
  "generate_diagrams L m =
     ''### Component Architecture'' @ nl @ architecture_chart L m
     @ ''### Application Flow'' @ nl @ flow_chart m"

section \<open>The README\<close>

text \<open>
  The icons of the section headers, as the bytes of the literals in the source.
\<close>

definition icon_description :: string where
  "icon_description = [CHR 0xEF, CHR 0xA3, CHR 0xBF, CHR 0xC3, CHR 0xBC, CHR 0xC3, CHR 0xAC, CHR 0xC3, CHR 0xB9]"

definition icon_tech :: string where
  "icon_tech = [CHR 0xEF, CHR 0xA3, CHR 0xBF, CHR 0xC3, CHR 0xBC, CHR 0xC3, CHR 0xB5, CHR 0xE2, CHR 0x80, CHR 0xA0]"

definition icon_install :: string where
  "icon_install = [CHR 0xE2, CHR 0x80, CHR 0x9A, CHR 0xC3, CHR 0xB6, CHR 0xC3, CHR 0xB4, CHR 0xC3, CHR 0x94, CHR 0xE2, CHR 0x88, CHR 0x8F, CHR 0xC3, CHR 0xA8]"

definition icon_usage :: string where
  "icon_usage = [CHR 0xEF, CHR 0xA3, CHR 0xBF, CHR 0xC3, CHR 0xBC, CHR 0xC3, CHR 0xB6, CHR 0xC3, CHR 0x84]"

definition icon_license :: string where
  "icon_license = [CHR 0xEF, CHR 0xA3, CHR 0xBF, CHR 0xC3, CHR 0xBC, CHR 0xC3, CHR 0xAC, CHR 0xC3, CHR 0x91]"

definition icon_screenshot :: string where
  "icon_screenshot = [CHR 0xEF, CHR 0xA3, CHR 0xBF, CHR 0xC3, CHR 0xBC, CHR 0xC3, CHR 0xAC, CHR 0xE2, CHR 0x88, CHR 0x8F]"

definition icon_toc :: string where
  "icon_toc = [CHR 0xEF, CHR 0xA3, CHR 0xBF, CHR 0xC3, CHR 0xBC, CHR 0xC3, CHR 0xAC, CHR 0xC3, CHR 0xAB]"

definition icon_architecture :: string where
  "icon_architecture = [CHR 0xEF, CHR 0xA3, CHR 0xBF, CHR 0xC3, CHR 0xBC, CHR 0xC3, CHR 0xA8, CHR 0xC3, CHR 0xB3]"

definition icon_structure :: string where
  "icon_structure = [CHR 0xEF, CHR 0xA3, CHR 0xBF, CHR 0xC3, CHR 0xBC, CHR 0xC3, CHR 0xAC, CHR 0xC3, CHR 0x87]"

definition icon_scripts :: string where
  "icon_scripts = [CHR 0xEF, CHR 0xA3, CHR 0xBF, CHR 0xC3, CHR 0xBC, CHR 0xC3, CHR 0xAC, CHR 0xC3, CHR 0xBA]"

definition icon_dependencies :: string where
  "icon_dependencies = [CHR 0xEF, CHR 0xA3, CHR 0xBF, CHR 0xC3, CHR 0xBC, CHR 0xC3, CHR 0xAC, CHR 0xC2, CHR 0xB6]"

definition icon_testing :: string where
  "icon_testing = [CHR 0xEF, CHR 0xA3, CHR 0xBF, CHR 0xC3, CHR 0xBC, CHR 0xC3, CHR 0x9F, CHR 0xE2, CHR 0x84, CHR 0xA2]"

definition icon_contributing :: string where
  "icon_contributing = [CHR 0xEF, CHR 0xA3, CHR 0xBF, CHR 0xC3, CHR 0xBC, CHR 0xC2, CHR 0xA7, CHR 0xC3, CHR 0xB9]"

definition icon_env :: string where
  "icon_env = [CHR 0xEF, CHR 0xA3, CHR 0xBF, CHR 0xC3, CHR 0xBC, CHR 0xC3, CHR 0xAE, CHR 0xC3, CHR 0xAA]"

definition icon_api :: string where
  "icon_api = [CHR 0xEF, CHR 0xA3, CHR 0xBF, CHR 0xC3, CHR 0xBC, CHR 0xC3, CHR 0xAC, CHR 0xC2, CHR 0xB0]"

definition icon_docker :: string where
  "icon_docker = [CHR 0xEF, CHR 0xA3, CHR 0xBF, CHR 0xC3, CHR 0xBC, CHR 0xC3, CHR 0xAA, CHR 0xE2, CHR 0x89, CHR 0xA5]"

definition icon_services :: string where
  "icon_services = [CHR 0xEF, CHR 0xA3, CHR 0xBF, CHR 0xC3, CHR 0xBC, CHR 0xC3, CHR 0x9F, CHR 0xC2, CHR 0xA9]"

definition icon_health :: string where
  "icon_health = [CHR 0xEF, CHR 0xA3, CHR 0xBF, CHR 0xC3, CHR 0xBC, CHR 0xC3, CHR 0xAC, CHR 0xC3, CHR 0xA4]"

definition icon_next :: string where
  "icon_next = [CHR 0xEF, CHR 0xA3, CHR 0xBF, CHR 0xC3, CHR 0xBC, CHR 0xC3, CHR 0xAE, CHR 0xC3, CHR 0x86]"

definition h2 :: "string \<Rightarrow> string \<Rightarrow> string" where
  "h2 icon name = ''## '' @ icon @ '' '' @ name"

definition has_tech_stack_details :: "metadata \<Rightarrow> bool" where
  "has_tech_stack_details m =
     (let d = tech_stack_details m
      in frameworks d \<noteq> {} \<or> databases d \<noteq> {} \<or> auth d \<noteq> {} \<or> cache d \<noteq> {})"

definition generate_tech_stack_list :: "metadata \<Rightarrow> string" where
  "generate_tech_stack_list m =
     (let d = tech_stack_details m;
          ls = (if frameworks d \<noteq> {} then [''- **Frameworks:** '' @ join '', '' (sorted_of (frameworks d))] else [])
             @ (if databases d \<noteq> {} then [''- **Databases:** '' @ join '', '' (sorted_of (databases d))] else [])
             @ (if auth d \<noteq> {} then [''- **Auth:** '' @ join '', '' (sorted_of (auth d))] else [])
             @ (if cache d \<noteq> {} then [''- **Cache:** '' @ join '', '' (sorted_of (cache d))] else [])
      in if ls = [] then ''Languages: '' @ join '', '' (sorted_of (languages m)) @ ''\<newline>''
         else join ''\<newline>'' ls @ ''\<newline>'')"

definition generate_env_section :: "metadata \<Rightarrow> string" where
  "generate_env_section m =
     (let envs = sorted_of (env_vars m)
      in if envs = [] then []
         else h2 icon_env ''Environment Variables\<newline>\<newline>''
              @ ''Configure the following environment variables (e.g. in a `.env` file):\<newline>\<newline>''
              @ ''```bash\<newline>''
              @ concat (map (\<lambda>v. v @ ''=\<newline>'') envs)
              @ ''```\<newline>\<newline>'')"

definition generate_api_section :: "metadata \<Rightarrow> string" where
  "generate_api_section m =
     (if api_endpoints m = [] then []
      else h2 icon_api ''API Endpoints (Auto-detected)\<newline>\<newline>''
           @ concat (map (\<lambda>ep. ''- `'' @ ep @ ''`\<newline>'') (api_endpoints m))
           @ ''\<newline>> Note: This list is auto-generated and may be incomplete. Please review and update.\<newline>\<newline>'')"

definition generate_docker_section :: "metadata \<Rightarrow> string" where
  "generate_docker_section m =
     (let d = docker_info m
      in if \<not> (dockerfile d \<or> compose d) then []
         else h2 icon_docker ''Docker\<newline>\<newline>''
              @ (if dockerfile d
                 then ''Build and run using Docker:\<newline>\<newline>```bash\<newline>docker build -t my-app .\<newline>docker run -p 8000:8000 my-app\<newline>```\<newline>\<newline>''
                 else [])
              @ (if compose d
                 then ''Or using Docker Compose:\<newline>\<newline>```bash\<newline>docker-compose up --build\<newline>```\<newline>\<newline>''
                 else []))"

definition service_block :: "service \<Rightarrow> string" where
  "service_block sv =
     ''### `'' @ svc_name sv @ ''/`\<newline>''
     @ ''- Path: `'' @ svc_path sv @ ''`\<newline>''
     @ ''- Languages: ''
     @ (if svc_languages sv \<noteq> [] then join '', '' (svc_languages sv) else ''Unknown'')
     @ ''\<newline>\<newline>''"

definition generate_services_section :: "metadata \<Rightarrow> string" where
  "generate_services_section m =
     (if services m = [] then []
      else h2 icon_services ''Services / Packages (Detected)\<newline>\<newline>''
           @ concat (map service_block (sort_key svc_name (services m))))"

definition generate_health_section :: "metadata \<Rightarrow> string" where
  "generate_health_section m =
     (let st = stat m;
          per = (\<lambda>lang n. if n \<noteq> 0 then ''  - '' @ lang @ '': '' @ show_nat n @ ''\<newline>'' else [])
      in h2 icon_health ''Project Health Snapshot\<newline>\<newline>''
         @ ''- **Code Files (approx):** ''
         @ show_nat (files_python st + files_node st + files_java st + files_go st) @ ''\<newline>''
         @ per ''Python'' (files_python st) @ per ''Node.js'' (files_node st)
         @ per ''Java'' (files_java st) @ per ''Go'' (files_go st)
         @ ''- **Test Files (approx):** '' @ show_nat (test_files st) @ ''\<newline>''
         @ ''- **CI/CD Config:** '' @ (if has_ci st then ''Yes'' else ''Not detected'') @ ''\<newline>''
         @ (if linting st \<noteq> {}
            then ''- **Linting/Formatting:** '' @ join '', '' (sorted_of (linting st)) @ ''\<newline>''
            else ''- **Linting/Formatting:** Not detected\<newline>'')
         @ ''\<newline>'')"

definition any_dependencies :: "metadata \<Rightarrow> bool" where
  "any_dependencies m =
     (deps_python (deps m) \<noteq> {} \<or> deps_node (deps m) \<noteq> {}
      \<or> deps_java (deps m) \<noteq> {} \<or> deps_go (deps m) \<noteq> {})"

definition next_step_suggestions :: "metadata \<Rightarrow> string list" where
  "next_step_suggestions m =
     (let sg =
        (if license m \<in> set [''Unlicensed'', ''See LICENSE file'']
         then [''Add a proper LICENSE file (e.g., MIT, Apache 2.0).''] else [])
        @ (if test_files (stat m) = 0
           then [''Add automated tests (unit/integration) for critical parts.''] else [])
        @ (if \<not> has_ci (stat m)
           then [''Set up a CI pipeline (GitHub Actions, GitLab CI, etc.).''] else [])
        @ (if env_vars m = {}
           then [''Document required environment variables in the README or `.env.example`.''] else [])
        @ (if \<not> any_dependencies m
           then [''Add or document dependency management files (`requirements.txt`, `package.json`, etc.).'']
           else [])
      in if sg = []
         then [''Project looks good! Consider improving documentation and adding more examples.'']
         else sg)"

definition generate_next_steps_section :: "metadata \<Rightarrow> string" where
  "generate_next_steps_section m =
     h2 icon_next ''Suggested Next Steps (Auto-generated)\<newline>\<newline>''
     @ concat (map (\<lambda>s. ''- [ ] '' @ s @ ''\<newline>'') (next_step_suggestions m))
     @ ''\<newline>''"

text \<open>\<open>_generate_strict_install\<close>.\<close>

definition install_python :: "lib \<Rightarrow> metadata \<Rightarrow> string" where
  "install_python L m =
     ''2. **Python Setup**\<newline>   ```bash\<newline>   python -m venv venv\<newline>   source venv/bin/activate\<newline>''
     @ (case python_requirements_path m of
          Some p \<Rightarrow>
            (if p \<noteq> [] then ''   pip install -r '' @ p @ ''\<newline>''
             else if deps_python (deps m) \<noteq> {}
             then ''   pip install '' @ join '' '' (take 5 (set_order L (deps_python (deps m)))) @ ''\<newline>''
             else [])
        | None \<Rightarrow>
            (if deps_python (deps m) \<noteq> {}
             then ''   pip install '' @ join '' '' (take 5 (set_order L (deps_python (deps m)))) @ ''\<newline>''
             else []))
     @ ''   ```\<newline>''"

definition install_java :: "metadata \<Rightarrow> string" where
  "install_java m =
     ''2. **Java Setup**\<newline>''
     @ (if ''Maven'' \<in> build_tools m then ''   ```bash\<newline>   mvn clean install\<newline>   ```\<newline>''
        else if ''Gradle'' \<in> build_tools m then ''   ```bash\<newline>   ./gradlew build\<newline>   ```\<newline>''
        else ''   ```bash\<newline>   # Raw Java Project: Compile manually\<newline>   javac *.java\<newline>   ```\<newline>'')"

definition generate_strict_install :: "lib \<Rightarrow> metadata \<Rightarrow> string list \<Rightarrow> string" where
  "generate_strict_install L m langs =
     ''1. **Clone the repository**\<newline>''
     @ ''   ```bash\<newline>''
     @ ''   git clone '' @ repo_url m @ ''\<newline>''
     @ ''   cd '' @ fmt L (project_name m) @ ''\<newline>''
     @ ''   ```\<newline>''
     @ (if ''Node.js'' \<in> set langs
        then ''2. **Node.js Setup**\<newline>   ```bash\<newline>   npm install\<newline>   ```\<newline>'' else [])
     @ (if ''Python'' \<in> set langs then install_python L m else [])
     @ (if ''Java'' \<in> set langs then install_java m else [])
     @ (if ''Go'' \<in> set langs
        then ''2. **Go Setup**\<newline>   ```bash\<newline>   go mod tidy\<newline>   ```\<newline>'' else [])"

text \<open>
  \<open>"start" in scripts\<close>: key membership for a dict, substring for a string, element for a
  list; any other value is not iterable.
\<close>

definition start_in :: "json \<Rightarrow> exn + bool" where
  "start_in v =
     (case v of
        JObj kvs \<Rightarrow> Inr (''start'' \<in> fst ` set kvs)
      | JStr s \<Rightarrow> Inr (contains s ''start'')
      | JArr xs \<Rightarrow> Inr (JStr ''start'' \<in> set xs)
      | _ \<Rightarrow> Inl TypeError)"

definition usage_node :: "lib \<Rightarrow> metadata \<Rightarrow> exn + string" where
  "usage_node L m =
     (case start_in (scripts m) of
        Inl e \<Rightarrow> Inl e
      | Inr b \<Rightarrow>
          Inr (''**Node.js:**\<newline>''
               @ (if b then ''```bash\<newline>npm start\<newline>```\<newline>''
                  else ''```bash\<newline>node ''
                       @ fmt L (py_or (ep_node (entry_pts m)) (py_or (entry_point m) (JStr ''index.js'')))
                       @ ''\<newline>```\<newline>'')))"

definition usage_python :: "lib \<Rightarrow> metadata \<Rightarrow> exn + string" where
  "usage_python L m =
     (let entry = py_or (ep_python (entry_pts m)) (py_or (entry_point m) (JStr ''main.py''))
      in if ''fastapi'' \<in> deps_python (deps m) then
           (case entry of
              JStr e \<Rightarrow> Inr (''**Python:**\<newline>'' @ ''```bash\<newline>uvicorn ''
                             @ str_replace ''.py'' [] e @ '':app --reload\<newline>```\<newline>'')
            | _ \<Rightarrow> Inl AttributeError)
         else Inr (''**Python:**\<newline>'' @ ''```bash\<newline>python '' @ fmt L entry @ ''\<newline>```\<newline>''))"

definition usage_java :: "lib \<Rightarrow> metadata \<Rightarrow> string" where
  "usage_java L m =
     ''**Java:**\<newline>''
     @ (if ''Maven'' \<in> build_tools m then ''```bash\<newline>mvn spring-boot:run\<newline>```\<newline>''
        else if ''Gradle'' \<in> build_tools m then ''```bash\<newline>./gradlew bootRun\<newline>```\<newline>''
        else (let entry_cls = entry_point_cmd m;
                  entry_file = py_or (ep_java (entry_pts m)) (entry_point m)
              in if truthy entry_cls \<and> truthy entry_file
                 then ''```bash\<newline>javac '' @ fmt L entry_file @ ''\<newline>java '' @ fmt L entry_cls
                      @ ''\<newline>```\<newline>''
                 else ''```bash\<newline>javac Main.java\<newline>java Main\<newline>```\<newline>''))"

definition usage_go :: "lib \<Rightarrow> metadata \<Rightarrow> string" where
  "usage_go L m =
     ''**Go:**\<newline>'' @ ''```bash\<newline>go run ''
     @ fmt L (py_or (ep_go (entry_pts m)) (py_or (entry_point m) (JStr ''main.go'')))
     @ ''\<newline>```\<newline>''"

text \<open>\<open>_generate_strict_usage\<close>: the first exception ends it.\<close>

definition generate_strict_usage :: "lib \<Rightarrow> metadata \<Rightarrow> string list \<Rightarrow> exn + string" where
  "generate_strict_usage L m langs =
     (case (if ''Node.js'' \<in> set langs then usage_node L m else Inr []) of
        Inl e \<Rightarrow> Inl e
      | Inr a \<Rightarrow>
          (case (if ''Python'' \<in> set langs then usage_python L m else Inr []) of
             Inl e \<Rightarrow> Inl e
           | Inr b \<Rightarrow>
               Inr (a @ b
                    @ (if ''Java'' \<in> set langs then usage_java L m else [])
                    @ (if ''Go'' \<in> set langs then usage_go L m else []))))"

definition language_badges :: "string list \<Rightarrow> string" where
  "language_badges langs =
     concat (map (\<lambda>l. ''!['' @ l @ ''](https://img.shields.io/badge/Language-'' @ l @ ''-blue) '') langs)"

definition title_line :: "lib \<Rightarrow> metadata \<Rightarrow> string" where
  "title_line L m = ''# '' @ fmt L (project_name m) @ ''\<newline>\<newline>''"

definition description_section :: "lib \<Rightarrow> metadata \<Rightarrow> string" where
  "description_section L m =
     h2 icon_description ''Description\<newline>'' @ fmt L (description m) @ ''\<newline>\<newline>''"

definition installation_section :: "lib \<Rightarrow> metadata \<Rightarrow> string list \<Rightarrow> string" where
  "installation_section L m langs =
     h2 icon_install ''Installation\<newline>'' @ generate_strict_install L m langs"

definition license_minimal :: "metadata \<Rightarrow> string" where
  "license_minimal m = h2 icon_license ''License\<newline>'' @ license m"

text \<open>\<open>build_markdown\<close> with \<open>template == "Minimal"\<close>.\<close>

definition build_minimal :: "lib \<Rightarrow> scanner \<Rightarrow> exn + string" where
  "build_minimal L s =
     (let m = meta s; langs = sorted_of (languages m)
      in case generate_strict_usage L m langs of
           Inl e \<Rightarrow> Inl e
         | Inr usage \<Rightarrow>
             Inr (title_line L m
                  @ language_badges langs @ ''\<newline>\<newline>''
                  @ description_section L m
                  @ (if custom_context s \<noteq> []
                     then ''> **Context:** '' @ custom_context s @ ''\<newline>\<newline>'' else [])
                  @ h2 icon_tech ''Tech Stack\<newline>''
                  @ (if has_tech_stack_details m then generate_tech_stack_list m @ ''\<newline>''
                     else join '', '' langs @ ''\<newline>\<newline>'')
                  @ installation_section L m langs
                  @ h2 icon_usage ''Usage\<newline>'' @ usage
                  @ (if env_vars m \<noteq> {} then generate_env_section m else [])
                  @ (if api_endpoints m \<noteq> [] then generate_api_section m else [])
                  @ license_minimal m))"

definition detailed_badges :: "metadata \<Rightarrow> string list \<Rightarrow> string" where
  "detailed_badges m langs =
     (if username m \<noteq> ''username'' then
        ''[![Stars](https://img.shields.io/github/stars/'' @ username m @ ''/'' @ repo_name m
        @ ''?style=social)]'' @ ''(https://github.com/'' @ username m @ ''/'' @ repo_name m
        @ ''/stargazers) ''
        @ ''[![Forks](https://img.shields.io/github/forks/'' @ username m @ ''/'' @ repo_name m
        @ ''?style=social)]'' @ ''(https://github.com/'' @ username m @ ''/'' @ repo_name m
        @ ''/network/members)\<newline>''
      else language_badges langs)
     @ ''![License](https://img.shields.io/badge/License-'' @ str_replace '' '' ''_'' (license m)
     @ ''-green)\<newline>\<newline>''"

definition screenshot_section :: string where
  "screenshot_section =
     h2 icon_screenshot ''Screenshot\<newline>''
     @ ''![App Screenshot](https://via.placeholder.com/800x400?text=Application+Screenshot)\<newline>\<newline>''"

definition has_tests :: "metadata \<Rightarrow> bool" where
  "has_tests m = (tests m \<noteq> [] \<or> 0 < test_files (stat m))"

definition has_docker :: "metadata \<Rightarrow> bool" where
  "has_docker m = (dockerfile (docker_info m) \<or> compose (docker_info m))"

definition table_of_contents :: "metadata \<Rightarrow> string" where
  "table_of_contents m =
     h2 icon_toc ''Table of Contents\<newline>''
     @ (if has_tech_stack_details m then ''- [Tech Stack](#-tech-stack)\<newline>'' else [])
     @ ''- [Architecture](#-architecture)\<newline>''
     @ ''- [Project Structure](#-project-structure)\<newline>''
     @ ''- [Installation](#-installation)\<newline>''
     @ ''- [Usage](#-usage)\<newline>''
     @ (if api_endpoints m \<noteq> [] then ''- [API Endpoints](#-api-endpoints)\<newline>'' else [])
     @ (if env_vars m \<noteq> {} then ''- [Environment Variables](#-environment-variables)\<newline>'' else [])
     @ (if has_docker m then ''- [Docker](#-docker)\<newline>'' else [])
     @ (if services m \<noteq> [] then ''- [Services](#-services)\<newline>'' else [])
     @ (if truthy (scripts m) then ''- [Scripts](#-scripts)\<newline>'' else [])
     @ (if any_dependencies m then ''- [Dependencies](#-dependencies)\<newline>'' else [])
     @ (if has_tests m then ''- [Testing](#-testing)\<newline>'' else [])
     @ ''- [Project Health](#-project-health)\<newline>''
     @ ''- [Contributing](#-contributing)\<newline>''
     @ ''- [Next Steps](#-next-steps)\<newline>''
     @ ''- [License](#-license)\<newline>\<newline>''"

definition architecture_section :: "lib \<Rightarrow> metadata \<Rightarrow> string" where
  "architecture_section L m =
     h2 icon_architecture ''Architecture\<newline>'' @ generate_diagrams L m @ ''\<newline>\<newline>''"

definition structure_section :: "metadata \<Rightarrow> string" where
  "structure_section m =
     h2 icon_structure ''Project Structure\<newline>'' @ structure m @ ''\<newline>\<newline>''"

text \<open>The scripts table: \<open>items()\<close> exists only on a dict.\<close>

definition scripts_section :: "lib \<Rightarrow> metadata \<Rightarrow> exn + string" where
  "scripts_section L m =
     (if truthy (scripts m) then
        (case scripts m of
           JObj kvs \<Rightarrow>
             Inr (h2 icon_scripts ''Scripts\<newline>| Command | Description |\<newline>|---|---|\<newline>''
                  @ concat (map (\<lambda>(k, v). ''| `npm run '' @ k @ ''` | '' @ fmt L v @ '' |\<newline>'') kvs)
                  @ ''\<newline>'')
         | _ \<Rightarrow> Inl AttributeError)
      else Inr [])"

text \<open>\<open>m["dependencies"].get(l)\<close> for a language name.\<close>

definition deps_of_language :: "metadata \<Rightarrow> string \<Rightarrow> string set" where
  "deps_of_language m l =
     (if l = ''Python'' then deps_python (deps m)
      else if l = ''Node.js'' then deps_node (deps m)
      else if l = ''Java'' then deps_java (deps m)
      else if l = ''Go'' then deps_go (deps m)
      else {})"

definition dependencies_section :: "metadata \<Rightarrow> string list \<Rightarrow> string" where
  "dependencies_section m langs =
     (if any_dependencies m then
        h2 icon_dependencies ''Dependencies\<newline>''
        @ concat (map (\<lambda>l. if deps_of_language m l \<noteq> {}
                           then ''**'' @ l @ ''**\<newline>''
                                @ concat (map (\<lambda>d. ''- `'' @ d @ ''`\<newline>'')
                                            (take 12 (sorted_of (deps_of_language m l))))
                                @ ''\<newline>''
                           else []) langs)
      else [])"

definition testing_section :: "metadata \<Rightarrow> string list \<Rightarrow> string" where
  "testing_section m langs =
     (if has_tests m then
        h2 icon_testing ''Testing\<newline>''
        @ (if tests m \<noteq> []
           then ''Detected testing tools/frameworks:\<newline>\<newline>''
                @ join '', '' (sort (remdups (tests m))) @ ''\<newline>\<newline>''
           else [])
        @ (if 0 < test_files (stat m)
           then ''- Approx. **'' @ show_nat (test_files (stat m)) @ ''** test files detected\<newline>\<newline>''
           else [])
        @ ''To run the tests, execute (adjust as needed):\<newline>```bash\<newline>''
        @ (if ''jest'' \<in> set (tests m) \<or> ''mocha'' \<in> set (tests m) then ''npm test\<newline>''
           else if ''pytest'' \<in> set (tests m) then ''pytest\<newline>''
           else if ''Node.js'' \<in> set langs then ''npm test\<newline>''
           else if ''Python'' \<in> set langs then ''pytest\<newline>''
           else ''# Run your test command here\<newline>'')
        @ ''```\<newline>\<newline>''
      else [])"

definition contributing_section :: string where
  "contributing_section =
     h2 icon_contributing ''Contributing\<newline>1. Fork the Project\<newline>2. Create your Feature Branch\<newline>3. Commit your Changes\<newline>4. Push to the Branch\<newline>5. Open a Pull Request\<newline>\<newline>''"

definition license_detailed :: "metadata \<Rightarrow> string" where
  "license_detailed m =
     h2 icon_license ''License\<newline>This project is licensed under the **'' @ license m @ ''**.''"

text \<open>\<open>build_markdown\<close> with any other template name: the detailed document.\<close>

definition build_detailed :: "lib \<Rightarrow> scanner \<Rightarrow> exn + string" where
  "build_detailed L s =
     (let m = meta s; langs = sorted_of (languages m)
      in case generate_strict_usage L m langs of
           Inl e \<Rightarrow> Inl e
         | Inr usage \<Rightarrow>
             (case scripts_section L m of
                Inl e \<Rightarrow> Inl e
              | Inr scr \<Rightarrow>
                  Inr (title_line L m
                       @ detailed_badges m langs
                       @ description_section L m
                       @ (if custom_context s \<noteq> []
                          then ''> **Developer Note:** '' @ custom_context s @ ''\<newline>\<newline>'' else [])
                       @ screenshot_section
                       @ table_of_contents m
                       @ (if has_tech_stack_details m
                          then h2 icon_tech ''Tech Stack\<newline>'' @ generate_tech_stack_list m @ ''\<newline>''
                          else [])
                       @ architecture_section L m
                       @ structure_section m
                       @ installation_section L m langs
                       @ h2 icon_usage ''Usage\<newline>'' @ usage
                       @ (if api_endpoints m \<noteq> [] then generate_api_section m else [])
                       @ (if env_vars m \<noteq> {} then generate_env_section m else [])
                       @ (if has_docker m then generate_docker_section m else [])
                       @ (if services m \<noteq> [] then generate_services_section m else [])
                       @ scr
                       @ dependencies_section m langs
                       @ testing_section m langs
                       @ generate_health_section m
                       @ contributing_section
                       @ generate_next_steps_section m
                       @ license_detailed m)))"

definition build_markdown :: "lib \<Rightarrow> scanner \<Rightarrow> string \<Rightarrow> exn + string" where
  "build_markdown L s template =
     (if template = ''Minimal'' then build_minimal L s else build_detailed L s)"

section \<open>The whole run\<close>

text \<open>
  \<open>generate_readme\<close>: set up, scan, build, and in every case \<open>cleanup\<close> last
  (\<open>try ... finally\<close>). The result is the document or the exception, and the world after.
\<close>

definition target_node :: "world \<Rightarrow> string \<Rightarrow> node" where
  "target_node w p = (case fs w p of Some x \<Rightarrow> x | None \<Rightarrow> File Unreadable)"

definition generate_readme ::
  "env \<Rightarrow> lib \<Rightarrow> string \<Rightarrow> string \<Rightarrow> string \<Rightarrow> world \<Rightarrow> (exn + string) \<times> world" where
  "generate_readme E L p template ctx w =
     (case setup_path E (new_scanner p ctx) w of
        (Some e, s1, w1) \<Rightarrow> (Inl e, cleanup E s1 w1)
      | (None, s1, w1) \<Rightarrow>
          (case scan L (target_node w1 (path s1)) s1 of
             Inl e \<Rightarrow> (Inl e, cleanup E s1 w1)
           | Inr s2 \<Rightarrow> (build_markdown L s2 template, cleanup E s2 w1)))"

section \<open>Headers in order\<close>



section \<open>A tree without source files and manifests\<close>




text \<open>The fields that only a manifest or a source file can change.\<close>

definition core_of :: "metadata \<Rightarrow> json \<times> string set \<times> json \<times> dependencies \<times> tech_details" where
  "core_of m = (project_name m, languages m, description m, deps m, tech_stack_details m)"

section \<open>Names that are safe inside a diagram\<close>

text \<open>
  Not part of the scanner: a name is plain when it has no backtick and no line break. A
  declaration of a graph is a line that starts with \<open>graph\<close>; a row of a chart is empty
  or one indented line.
\<close>

definition fence_free :: "string \<Rightarrow> bool" where
  "fence_free s = (CHR 0x60 \<notin> set s)"

definition plain :: "string \<Rightarrow> bool" where
  "plain s = (fence_free s \<and> CHR 0x0A \<notin> set s)"

definition chart_names_plain :: "lib \<Rightarrow> metadata \<Rightarrow> bool" where
  "chart_names_plain L m =
     (plain (fmt L (chart_entry m)) \<and> list_all plain (take 6 (modules m))
      \<and> plain (fmt L (py_or (entry_point m) (JStr ''Server''))))"

definition decl :: string where
  "decl = nl @ ''graph ''"

definition row :: "string \<Rightarrow> bool" where
  "row x = (x = [] \<or> (\<exists>y. x = CHR '' '' # y @ nl \<and> CHR 0x0A \<notin> set y))"

section \<open>A tree without its denied directories\<close>

text \<open>
  Not part of the scanner: the tree that is left when every directory with a name in
  \<open>IGNORE_DIRS\<close> is deleted, at any depth. It states what the scan may depend on.
\<close>

fun prune :: "(string \<times> node) list \<Rightarrow> (string \<times> node) list" where
  "prune [] = []"
| "prune ((n, File d) # es) = (n, File d) # prune es"
| "prune ((n, Dir sub) # es) =
     (if n \<in> set IGNORE_DIRS then prune es else (n, Dir (prune sub)) # prune es)"

section \<open>The first comparison operator of a line\<close>

text \<open>
  Not part of the scanner: a requirement line as the specification reads it. The line is
  cut at the first place where one of the six comparison operators starts; the result is
  the text before it, the operator, and the text after it.
\<close>

definition operators :: "string list" where
  "operators = [''=='', ''>='', ''<='', ''~='', ''>'', ''<'']"

fun first_operator :: "string \<Rightarrow> (string \<times> string \<times> string) option" where
  "first_operator [] = None"
| "first_operator (c # cs) =
     (case List.find (\<lambda>op. prefix op (c # cs)) operators of
        Some op \<Rightarrow> Some ([], op, drop (length op) (c # cs))
      | None \<Rightarrow> map_option (\<lambda>(a, op, b). (c # a, op, b)) (first_operator cs))"

text \<open>The name of the line: all of it when it has no operator, else the text before the operator.\<close>

definition name_side :: "string \<Rightarrow> string" where
  "name_side l = (case first_operator l of None \<Rightarrow> l | Some (a, op, b) \<Rightarrow> a)"

text \<open>A line that has no operator, or whose first operator is \<open>==\<close>.\<close>

definition bare_or_pinned :: "string \<Rightarrow> bool" where
  "bare_or_pinned l = (case first_operator l of None \<Rightarrow> True | Some (a, op, b) \<Rightarrow> op = ''=='')"

text \<open>
  Text in which every character is ASCII. On such text the string operations of this
  theory are those of Python.
\<close>

definition ascii :: "string \<Rightarrow> bool" where
  "ascii s = list_all (\<lambda>c. (of_char c :: nat) < 128) s"

section \<open>Concrete inputs\<close>

definition demo_env :: env where
  "demo_env = \<lparr>mkdtemp = Inr ''/tmp/tmpab12'',
               clone_from = (\<lambda>u. Inl ''repository not found''),
               rmtree_ok = (\<lambda>d. True),
               origin_url = (\<lambda>p. None),
               basename_normpath = (\<lambda>p. last (str_split ''/'' p))\<rparr>"





definition demo_lib :: lib where
  "demo_lib = \<lparr>findall1 = (\<lambda>p s. []), findall2 = (\<lambda>p s. []), findall4 = (\<lambda>p s. []),
               json_loads = (\<lambda>s. None), py_str = (\<lambda>v. ''?''),
               set_order = sorted_list_of_set\<rparr>"


definition express_text :: string where
  "express_text = ''{'' @ dq @ ''dependencies'' @ dq @ '':{'' @ dq @ ''express'' @ dq @ '':''
     @ dq @ ''^4.18.0'' @ dq @ ''},'' @ dq @ ''scripts'' @ dq @ '':{'' @ dq @ ''start'' @ dq
     @ '':'' @ dq @ ''node index.js'' @ dq @ ''}}''"

definition express_manifest :: "(string \<times> json) list" where
  "express_manifest =
     [(''dependencies'', JObj [(''express'', JStr ''^4.18.0'')]),
      (''scripts'', JObj [(''start'', JStr ''node index.js'')])]"

definition name5_text :: string where
  "name5_text = ''{'' @ dq @ ''name'' @ dq @ '': 5}''"

text \<open>A \<open>json.loads\<close> that knows the two manifests above and rejects every other text.\<close>

definition manifest_lib :: lib where
  "manifest_lib = demo_lib\<lparr>json_loads :=
     (\<lambda>s. if s = express_text then Some (JObj express_manifest)
          else if s = name5_text then Some (JObj [(''name'', JInt 5)])
          else None)\<rparr>"

definition app_world :: world where
  "app_world = \<lparr>fs = [''/srv/app'' \<mapsto> Dir [(''package.json'', File (Text name5_text))]],
                trace = []\<rparr>"

definition demo_tree :: "(string \<times> node) list" where
  "demo_tree =
     [(''app.py'', File (Text ''import flask'')),
      (''node_modules'', Dir [(''package.json'', File (Text express_text)),
                              (''lib'', Dir [(''index.js'', File (Text ''x''))])]),
      (''src'', Dir [(''build'', Dir [(''gen.py'', File (Text ''y''))]),
                     (''util.py'', File Unreadable)])]"


section \<open>What scanning leaves alone\<close>

lemma on_meta_frame [simp]:
  "temp_dir (on_meta g s) = temp_dir s" "path (on_meta g s) = path s"
  "custom_context (on_meta g s) = custom_context s"
  "service_infos (on_meta g s) = service_infos s" "meta (on_meta g s) = g (meta s)"
  by (simp_all add: on_meta_def)

lemma on_stat_frame [simp]:
  "temp_dir (on_stat g s) = temp_dir s" "path (on_stat g s) = path s"
  "custom_context (on_stat g s) = custom_context s"
  "service_infos (on_stat g s) = service_infos s"
  "meta (on_stat g s) = (meta s)\<lparr>stat := g (stat (meta s))\<rparr>"
  by (simp_all add: on_stat_def)

lemma register_service_frame [simp]:
  "temp_dir (register_service n s) = temp_dir s" "path (register_service n s) = path s"
  "custom_context (register_service n s) = custom_context s"
  "meta (register_service n s) = meta s"
  by (simp_all add: register_service_def)

lemma flag_service_frame [simp]:
  "temp_dir (flag_service svc upd s) = temp_dir s" "path (flag_service svc upd s) = path s"
  "custom_context (flag_service svc upd s) = custom_context s"
  "meta (flag_service svc upd s) = meta s"
  by (simp_all add: flag_service_def split: option.splits)

lemma scan_config_names_frame [simp]:
  "temp_dir (scan_config_names f s) = temp_dir s" "path (scan_config_names f s) = path s"
  "custom_context (scan_config_names f s) = custom_context s"
  by (simp_all add: scan_config_names_def Let_def)

lemma scan_manifest_frame [simp]:
  "temp_dir (scan_manifest L svc relp f d s) = temp_dir s"
  "path (scan_manifest L svc relp f d s) = path s"
  "custom_context (scan_manifest L svc relp f d s) = custom_context s"
  by (simp_all add: scan_manifest_def)

lemma scan_source_frame [simp]:
  "temp_dir (scan_source L dirp f d s) = temp_dir s"
  "path (scan_source L dirp f d s) = path s"
  "custom_context (scan_source L dirp f d s) = custom_context s"
  by (simp_all add: scan_source_def Let_def)

lemma scan_file_frame [simp]:
  "temp_dir (scan_file L rp rel fd s) = temp_dir s"
  "path (scan_file L rp rel fd s) = path s"
  "custom_context (scan_file L rp rel fd s) = custom_context s"
  by (simp_all add: scan_file_def split: prod.splits)

lemma fold_scan_file_frame [simp]:
  "temp_dir (fold (scan_file L rp rel) fl s) = temp_dir s"
  "path (fold (scan_file L rp rel) fl s) = path s"
  "custom_context (fold (scan_file L rp rel) fl s) = custom_context s"
  by (induction fl arbitrary: s) simp_all

lemma scan_visit_frame [simp]:
  "temp_dir (scan_visit L rp v s) = temp_dir s"
  "path (scan_visit L rp v s) = path s"
  "custom_context (scan_visit L rp v s) = custom_context s"
  by (simp_all add: scan_visit_def Let_def split: prod.splits)

lemma fold_scan_visit_frame [simp]:
  "temp_dir (fold (scan_visit L rp) vs s) = temp_dir s"
  "path (fold (scan_visit L rp) vs s) = path s"
  "custom_context (fold (scan_visit L rp) vs s) = custom_context s"
  by (induction vs arbitrary: s) simp_all

lemma scan_tree_frame [simp]:
  "temp_dir (scan_tree L rp es s) = temp_dir s"
  "path (scan_tree L rp es s) = path s"
  "custom_context (scan_tree L rp es s) = custom_context s"
  by (simp_all add: scan_tree_def Let_def)

lemma finalize_services_frame [simp]:
  "temp_dir (finalize_services s) = temp_dir s" "path (finalize_services s) = path s"
  "custom_context (finalize_services s) = custom_context s"
  by (simp_all add: finalize_services_def)


section \<open>Splitting a requirement line\<close>

lemma split_eqeq_absent:
  "\<not> contains s ''=='' \<Longrightarrow> split_aux ''=='' 0 cur s = [rev cur @ s]"
  by (induction s arbitrary: cur) auto

lemma split_eqeq_first:
  "\<not> contains (a @ ''='') ''=='' \<Longrightarrow> hd (split_aux ''=='' 0 cur (a @ ''=='' @ b)) = rev cur @ a"
proof (induction a arbitrary: cur)
  case Nil
  then show ?case by simp
next
  case (Cons c a)
  then show ?case by (cases a) auto
qed

lemma requirement_name_plain:
  "\<not> contains l ''=='' \<Longrightarrow> requirement_name l = strip l"
  by (simp add: requirement_name_def str_split_def split_eqeq_absent)

lemma requirement_name_pinned:
  "\<not> contains (a @ ''='') ''=='' \<Longrightarrow> requirement_name (a @ ''=='' @ b) = strip a"
  using split_eqeq_first [of a "[]" b] by (simp add: requirement_name_def str_split_def)

lemma no_operator_here:
  "List.find (\<lambda>op. prefix op s) operators = None \<Longrightarrow> \<not> prefix ''=='' s"
  by (auto simp: find_None_iff operators_def)

lemma first_operator_none: "first_operator l = None \<Longrightarrow> \<not> contains l ''==''"
proof (induction l)
  case Nil
  then show ?case by simp
next
  case (Cons c cs)
  then have f: "List.find (\<lambda>op. prefix op (c # cs)) operators = None" and r: "first_operator cs = None"
    by (auto split: option.splits)
  from no_operator_here [OF f] Cons.IH [OF r] show ?case by simp
qed

lemma first_operator_pinned:
  "first_operator l = Some (a, ''=='', b) \<Longrightarrow> l = a @ ''=='' @ b \<and> \<not> contains (a @ ''='') ''==''"
proof (induction l arbitrary: a)
  case Nil
  then show ?case by simp
next
  case (Cons c cs)
  show ?case
  proof (cases "List.find (\<lambda>op. prefix op (c # cs)) operators")
    case (Some op)
    with Cons.prems have a: "a = []" and op: "op = ''==''" and b: "b = drop 2 (c # cs)" by auto
    from Some have "prefix op (c # cs)" by (metis find_Some_iff)
    then have "prefix ''=='' (c # cs)" unfolding op .
    then obtain z where z: "c # cs = ''=='' @ z" by (auto simp: prefix_def)
    then have "b = z" using b by simp
    with a z show ?thesis by simp
  next
    case None
    with Cons.prems obtain a' where a: "a = c # a'" and r: "first_operator cs = Some (a', ''=='', b)"
      by (auto split: option.splits)
    from Cons.IH [OF r] have cs: "cs = a' @ ''=='' @ b" and n: "\<not> contains (a' @ ''='') ''==''"
      by simp_all
    from no_operator_here [OF None] have "\<not> prefix ''=='' (c # a' @ ''=='' @ b)"
      using cs by simp
    then have "\<not> prefix ''=='' (c # a' @ ''='')" by (cases a') auto
    with n cs a show ?thesis by simp
  qed
qed

lemma requirement_name_regular:
  assumes "bare_or_pinned l"
  shows "requirement_name l = strip (name_side l)"
proof (cases "first_operator l")
  case None
  from first_operator_none [OF None] show ?thesis
    by (simp add: requirement_name_plain name_side_def None)
next
  case (Some t)
  obtain a op b where t: "t = (a, op, b)" by (cases t)
  with assms Some have op: "op = ''==''" by (simp add: bare_or_pinned_def)
  from first_operator_pinned [of l a b] Some t op
  have l: "l = a @ ''=='' @ b" and n: "\<not> contains (a @ ''='') ''==''" by simp_all
  have ns: "name_side l = a" by (simp add: name_side_def Some t)
  from requirement_name_pinned [OF n, of b] have "requirement_name l = strip a"
    unfolding l .
  with ns show ?thesis by simp
qed

section \<open>Reading the package manifest\<close>

lemma set_main_frame [simp]:
  "deps (set_main v m) = deps m" "tests (set_main v m) = tests m"
  by (simp_all add: set_main_def Let_def)

lemma package_json_data_ok:
  assumes "dict_get_obj kvs ''dependencies'' = JObj ds"
    and "dict_get_obj kvs ''devDependencies'' = JObj dev"
  shows "fst (package_json_data (JObj kvs) m) = None"
    and "deps (snd (package_json_data (JObj kvs) m))
           = (deps m)\<lparr>deps_node := deps_node (deps m) \<union> fst ` set ds\<rparr>"
    and "tests (snd (package_json_data (JObj kvs) m))
           = tests m @ filter (\<lambda>d. d \<in> set node_test_tools) (map fst ds @ map fst dev)"
  using assms by (simp_all add: package_json_data_def Let_def)

lemma package_json_data_versions:
  assumes "\<forall>k. k \<noteq> ''dependencies'' \<and> k \<noteq> ''devDependencies'' \<longrightarrow> map_of kvs' k = map_of kvs k"
    and "dict_get_obj kvs ''dependencies'' = JObj ds" "dict_get_obj kvs' ''dependencies'' = JObj ds'"
    and "dict_get_obj kvs ''devDependencies'' = JObj dev" "dict_get_obj kvs' ''devDependencies'' = JObj dev'"
    and "map fst ds' = map fst ds" "map fst dev' = map fst dev"
  shows "package_json_data (JObj kvs') m = package_json_data (JObj kvs) m"
proof -
  have g: "dict_get kvs' ''name'' = dict_get kvs ''name''" "dict_get kvs' ''main'' = dict_get kvs ''main''"
    "dict_get kvs' ''description'' = dict_get kvs ''description''"
    "dict_get_obj kvs' ''scripts'' = dict_get_obj kvs ''scripts''"
    using assms(1) by (simp_all add: dict_get_def dict_get_obj_def)
  have f: "fst ` set ds' = fst ` set ds" using assms(6) by (metis set_map)
  show ?thesis
    unfolding package_json_data_def json.case g assms(2-5) keys_of.simps sum.case
    by (simp only: assms(6,7) f Let_def)
qed

section \<open>The walk and the denied directories\<close>

lemma file_entries_prune: "file_entries (prune es) = file_entries es"
  by (induction es rule: prune.induct) (simp_all add: file_entries_def)

lemma kept_dirs_prune:
  "filter (\<lambda>d. d \<notin> set IGNORE_DIRS) (dir_names (prune es))
     = filter (\<lambda>d. d \<notin> set IGNORE_DIRS) (dir_names es)"
  by (induction es rule: prune.induct) (simp_all add: dir_names_def)

lemma walk_prune:
  "walk rel es = walk rel (prune es)" "walk_into rel es = walk_into rel (prune es)"
proof (induction rel es and rel es rule: walk_walk_into.induct)
  case (1 rel es)
  then show ?case by (simp add: file_entries_prune kept_dirs_prune)
next
  case (2 rel)
  then show ?case by simp
next
  case (3 rel n d es)
  then show ?case by simp
next
  case (4 rel n sub es)
  then show ?case by (simp del: walk.simps)
qed

lemma walk_avoids:
  "(r, ds, fl) \<in> set (walk rel es) \<Longrightarrow>
     set r \<subseteq> set rel \<union> (- set IGNORE_DIRS) \<and> set ds \<inter> set IGNORE_DIRS = {}"
  "(r, ds, fl) \<in> set (walk_into rel es) \<Longrightarrow>
     set r \<subseteq> set rel \<union> (- set IGNORE_DIRS) \<and> set ds \<inter> set IGNORE_DIRS = {}"
proof (induction rel es and rel es arbitrary: r ds fl and r ds fl rule: walk_walk_into.induct)
  case (1 rel es)
  from "1.prems" have "(r = rel \<and> ds = filter (\<lambda>d. d \<notin> set IGNORE_DIRS) (dir_names es))
      \<or> (r, ds, fl) \<in> set (walk_into rel es)"
    by auto
  then show ?case
  proof
    assume "r = rel \<and> ds = filter (\<lambda>d. d \<notin> set IGNORE_DIRS) (dir_names es)"
    then show ?thesis by auto
  next
    assume "(r, ds, fl) \<in> set (walk_into rel es)"
    then show ?thesis by (rule "1.IH")
  qed
next
  case (2 rel)
  then show ?case by simp
next
  case (3 rel n d es)
  then show ?case by simp
next
  case (4 rel n sub es)
  show ?case
  proof (cases "(r, ds, fl) \<in> set (walk_into rel es)")
    case True
    then show ?thesis using 4(2) by blast
  next
    case False
    with 4(3) have n: "n \<notin> set IGNORE_DIRS" and m: "(r, ds, fl) \<in> set (walk (rel @ [n]) sub)"
      by (auto simp del: walk.simps split: if_splits)
    from 4(1) [OF n m] n show ?thesis by auto
  qed
qed

lemma denied_not_license: "list_all (\<lambda>n. \<not> license_name n) IGNORE_DIRS"
  by code_simp

lemma scan_license_prune: "scan_license (prune es) m = scan_license es m"
proof (induction es rule: prune.induct)
  case 1
  then show ?case by simp
next
  case (2 n d es)
  then show ?case by (simp add: scan_license_def)
next
  case (3 n sub es)
  have "n \<in> set IGNORE_DIRS \<Longrightarrow> \<not> license_name n"
    using denied_not_license by (simp add: list_all_iff)
  with 3 show ?case by (simp add: scan_license_def)
qed

lemma scan_prune: "scan L (Dir es) s = scan L (Dir (prune es)) s"
proof -
  have l: "scan_license (prune es) = scan_license es"
    by (rule ext) (rule scan_license_prune)
  have t: "scan_tree L rp (prune es) = scan_tree L rp es" for rp
    using walk_prune(1) [of "[]" es] by (simp add: scan_tree_def fun_eq_iff del: walk.simps)
  show ?thesis
    unfolding scan_def node.case l t ..
qed


section \<open>Facts about headers in order\<close>







lemma h2_append: "h2 icon (a @ b) = h2 icon a @ b"
  by (simp add: h2_def)

section \<open>What a tree without source files and manifests leaves alone\<close>

lemma core_of_updates [simp]:
  "core_of (m\<lparr>stat := st\<rparr>) = core_of m" "core_of (m\<lparr>docker_info := dk\<rparr>) = core_of m"
  "core_of (m\<lparr>structure := x\<rparr>) = core_of m" "core_of (m\<lparr>license := lic\<rparr>) = core_of m"
  "core_of (m\<lparr>services := sv\<rparr>) = core_of m"
  "core_of (m\<lparr>tech_stack := ts\<rparr>) = core_of m"
  by (simp_all add: core_of_def)













section \<open>Fences and declarations in a diagram\<close>

lemma count_fence_skip:
  "fence_free t \<Longrightarrow> count_aux fence 0 (t @ r) = count_aux fence 0 r"
proof (induction t)
  case Nil
  then show ?case by simp
next
  case (Cons c t)
  then have "c \<noteq> CHR 0x60" "fence_free t" by (auto simp: fence_free_def)
  with Cons.IH show ?case by (simp add: fence_def)
qed

lemma count_mermaid_skip:
  "fence_free t \<Longrightarrow> count_aux fence_mermaid 0 (t @ r) = count_aux fence_mermaid 0 r"
proof (induction t)
  case Nil
  then show ?case by simp
next
  case (Cons c t)
  then have "c \<noteq> CHR 0x60" "fence_free t" by (auto simp: fence_free_def)
  with Cons.IH show ?case by (simp add: fence_mermaid_def)
qed

lemma rfind_append:
  "str_rfind sub b = Some i \<Longrightarrow> str_rfind sub (a @ b) = Some (length a + i)"
  by (induction a) simp_all

lemma fence_free_append [simp]: "fence_free (a @ b) \<longleftrightarrow> fence_free a \<and> fence_free b"
  by (auto simp: fence_free_def)

lemma fence_free_concat: "(\<And>x. x \<in> set xs \<Longrightarrow> fence_free x) \<Longrightarrow> fence_free (concat xs)"
  by (auto simp: fence_free_def)

lemma open_mermaid: "count_aux fence_mermaid 0 (fence_mermaid @ r) = Suc (count_aux fence_mermaid 0 r)"
  by (simp add: fence_mermaid_def)

lemma open_fence: "count_aux fence 0 (fence_mermaid @ r) = Suc (count_aux fence 0 (''mermaid'' @ r))"
  by (simp add: fence_mermaid_def fence_def)

lemma close_counts:
  "count_aux fence 0 fence = 1" "count_aux fence_mermaid 0 fence = 0"
  "count_aux fence 0 (fence @ nl @ nl) = 1" "count_aux fence_mermaid 0 (fence @ nl @ nl) = 0"
  "str_rfind fence fence = Some 0" "str_rfind fence (fence @ nl @ nl) = Some 0"
  by (simp_all add: fence_mermaid_def fence_def nl_def)

lemma framed:
  assumes "fence_free b" and "t = [] \<or> t = nl @ nl"
  shows "str_count fence_mermaid (fence_mermaid @ b @ fence @ t) = 1"
    and "str_count fence (fence_mermaid @ b @ fence @ t) = 2"
    and "str_find fence_mermaid (fence_mermaid @ b @ fence @ t) = Some 0"
    and "str_rfind fence (fence_mermaid @ b @ fence @ t) = Some (length fence_mermaid + length b)"
proof -
  have m: "fence_free (''mermaid'' @ b)" using assms(1) by (simp add: fence_free_def)
  show "str_count fence_mermaid (fence_mermaid @ b @ fence @ t) = 1"
    using assms(2) count_mermaid_skip [OF assms(1), of "fence @ t"]
    by (auto simp: str_count_def open_mermaid close_counts)
  show "str_count fence (fence_mermaid @ b @ fence @ t) = 2"
    using assms(2) count_fence_skip [OF m, of "fence @ t"]
    by (auto simp: str_count_def open_fence close_counts)
  show "str_find fence_mermaid (fence_mermaid @ b @ fence @ t) = Some 0"
    by (simp add: fence_mermaid_def)
  have "str_rfind fence (fence @ t) = Some 0"
    using assms(2) by (auto simp: close_counts)
  from rfind_append [OF this, of "fence_mermaid @ b"]
  show "str_rfind fence (fence_mermaid @ b @ fence @ t) = Some (length fence_mermaid + length b)"
    by simp
qed

lemma decl_skip: "CHR 0x0A \<notin> set t \<Longrightarrow> count_aux decl 0 (t @ r) = count_aux decl 0 r"
proof (induction t)
  case Nil
  then show ?case by simp
next
  case (Cons c t)
  then have "c \<noteq> CHR 0x0A" "CHR 0x0A \<notin> set t" by auto
  with Cons.IH show ?case by (simp add: decl_def nl_def)
qed

lemma decl_at_newline:
  "r \<noteq> [] \<Longrightarrow> hd r \<noteq> CHR ''g'' \<Longrightarrow> count_aux decl 0 (nl @ r) = count_aux decl 0 r"
  by (cases r) (simp_all add: decl_def nl_def)

lemma rows_head:
  "list_all row xs \<Longrightarrow> r \<noteq> [] \<Longrightarrow> hd r \<noteq> CHR ''g'' \<Longrightarrow>
     concat xs @ r \<noteq> [] \<and> hd (concat xs @ r) \<noteq> CHR ''g''"
  by (induction xs) (auto simp: row_def)

lemma rows_skip:
  "list_all row xs \<Longrightarrow> r \<noteq> [] \<Longrightarrow> hd r \<noteq> CHR ''g'' \<Longrightarrow>
     count_aux decl 0 (concat xs @ r) = count_aux decl 0 r"
proof (induction xs)
  case Nil
  then show ?case by simp
next
  case (Cons x xs)
  then have rest: "count_aux decl 0 (concat xs @ r) = count_aux decl 0 r" by simp
  from Cons.prems have hd: "concat xs @ r \<noteq> [] \<and> hd (concat xs @ r) \<noteq> CHR ''g''"
    using rows_head [of xs r] by simp
  from Cons.prems(1) have "row x" by simp
  then show ?case
  proof (unfold row_def, elim disjE exE conjE)
    assume "x = []"
    then show ?thesis using rest by simp
  next
    fix y assume x: "x = CHR '' '' # y @ nl" and y: "CHR 0x0A \<notin> set y"
    have "count_aux decl 0 (concat (x # xs) @ r)
            = count_aux decl 0 ((CHR '' '' # y) @ nl @ concat xs @ r)"
      by (simp add: x)
    also have "\<dots> = count_aux decl 0 (nl @ concat xs @ r)"
      by (rule decl_skip) (use y in simp)
    also have "\<dots> = count_aux decl 0 (concat xs @ r)"
      using hd by (intro decl_at_newline) simp_all
    finally show ?thesis using rest by simp
  qed
qed

lemma decl_once:
  assumes "list_all row xs"
  shows "str_count decl (fence_mermaid @ nl @ ''graph TD'' @ nl @ concat xs @ fence @ nl @ nl) = 1"
proof -
  have a: "count_aux decl 0 (fence_mermaid @ r) = count_aux decl 0 r" for r
    by (rule decl_skip) (simp add: fence_mermaid_def)
  have b: "count_aux decl 0 (nl @ ''graph TD'' @ r) = Suc (count_aux decl 0 (''TD'' @ r))" for r
    by (simp add: decl_def nl_def)
  have c: "count_aux decl 0 (''TD'' @ r) = count_aux decl 0 r" for r
    by (rule decl_skip) simp
  have d: "count_aux decl 0 (nl @ concat xs @ fence @ nl @ nl) = count_aux decl 0 (concat xs @ fence @ nl @ nl)"
    using rows_head [OF assms, of "fence @ nl @ nl"]
    by (intro decl_at_newline) (simp_all add: fence_def)
  have e: "count_aux decl 0 (concat xs @ fence @ nl @ nl) = count_aux decl 0 (fence @ nl @ nl)"
    by (rule rows_skip [OF assms]) (simp_all add: fence_def)
  have f: "count_aux decl 0 (fence @ nl @ nl) = 0"
    by (simp add: decl_def fence_def nl_def)
  show ?thesis
    unfolding str_count_def a b c d e f by simp
qed

lemma plain_literals:
  "dep \<in> set db_deps \<or> dep \<in> set cache_deps \<Longrightarrow> plain dep"
  by (auto simp: db_deps_def cache_deps_def plain_def fence_free_def)

lemma row_dep_line: "plain backend \<Longrightarrow> row (dep_line backend dep)"
proof -
  assume b: "plain backend"
  show ?thesis
  proof (cases "dep \<in> set db_deps")
    case True
    with plain_literals [of dep] have d: "plain dep" by simp
    have "dep_line backend dep
        = CHR '' '' # (''   '' @ backend @ '' --> '' @ dep @ ''[('' @ dep @ '' DB)]'') @ nl"
      using True by (simp add: dep_line_def)
    moreover have "CHR 0x0A \<notin> set (''   '' @ backend @ '' --> '' @ dep @ ''[('' @ dep @ '' DB)]'')"
      using b d by (simp add: plain_def)
    ultimately show ?thesis unfolding row_def by blast
  next
    case False
    show ?thesis
    proof (cases "dep \<in> set cache_deps")
      case True
      with plain_literals [of dep] have d: "plain dep" by simp
      have "dep_line backend dep
          = CHR '' '' # (''   '' @ backend @ '' --> '' @ dep @ ''(('' @ dep @ '' Cache))'') @ nl"
        using True False by (simp add: dep_line_def)
      moreover have "CHR 0x0A \<notin> set (''   '' @ backend @ '' --> '' @ dep @ ''(('' @ dep @ '' Cache))'')"
        using b d by (simp add: plain_def)
      ultimately show ?thesis unfolding row_def by blast
    next
      case c: False
      with False show ?thesis by (simp add: dep_line_def row_def)
    qed
  qed
qed

lemma fence_free_dep_line: "plain backend \<Longrightarrow> fence_free (dep_line backend dep)"
  using plain_literals [of dep]
  by (auto simp: dep_line_def plain_def fence_free_def nl_def)

lemma flow_closed:
  "str_count ''sequenceDiagram'' (flow_text True) = 1" "str_count ''sequenceDiagram'' (flow_text False) = 1"
  "\<not> contains (flow_text True) ''graph''" "\<not> contains (flow_text False) ''graph''"
  "\<not> contains (flow_text True) ''flowchart''" "\<not> contains (flow_text False) ''flowchart''"
  by code_simp+

lemma flow_shape:
  "\<exists>b. flow_text db = fence_mermaid @ b @ fence @ [] \<and> fence_free b"
proof (cases db)
  case True
  show ?thesis
    by (rule exI [of _ "nl @ ''sequenceDiagram'' @ nl
     @ ''    participant User'' @ nl
     @ ''    participant System'' @ nl
     @ ''    participant DB as Database'' @ nl
     @ ''    User->>System: Request'' @ nl
     @ ''    System->>System: Process Logic'' @ nl
     @ ''    System->>DB: Query Data'' @ nl @ ''    DB-->>System: Return Data'' @ nl
     @ ''    System-->>User: Response'' @ nl"]) (simp add: flow_text_def True fence_free_def nl_def)
next
  case False
  show ?thesis
    by (rule exI [of _ "nl @ ''sequenceDiagram'' @ nl
     @ ''    participant User'' @ nl
     @ ''    participant System'' @ nl
     @ ''    User->>System: Request'' @ nl
     @ ''    System->>System: Process Logic'' @ nl
     @ ''    System-->>User: Response'' @ nl"]) (simp add: flow_text_def False fence_free_def nl_def)
qed

lemma chart_shape:
  assumes "chart_names_plain L m"
  shows "\<exists>xs. architecture_chart L m = fence_mermaid @ nl @ ''graph TD'' @ nl @ concat xs @ fence @ nl @ nl
              \<and> list_all row xs \<and> list_all fence_free xs"
proof (cases "(''Java'' \<in> languages m \<or> ''Python'' \<in> languages m) \<and> modules m \<noteq> []")
  case True
  let ?e = "fmt L (chart_entry m)"
  let ?first = "CHR '' '' # (''   '' @ ?e @ '' --> Logic_Layer'') @ nl"
  let ?mods = "filter (\<lambda>md. JStr md \<noteq> chart_entry m) (take 6 (modules m))"
  let ?xs = "?first # map (\<lambda>md. CHR '' '' # (''   Logic_Layer --> '' @ md) @ nl) ?mods"
  have e: "plain ?e" and ms: "\<forall>md\<in>set ?mods. plain md"
    using assms by (auto simp: chart_names_plain_def list_all_iff)
  have "architecture_chart L m = fence_mermaid @ nl @ ''graph TD'' @ nl @ concat ?xs @ fence @ nl @ nl"
    using True by (simp add: architecture_chart_def class_lines_def Let_def concat_map_singleton comp_def)
  moreover have "list_all row ?xs"
    using e ms by (auto simp: list_all_iff row_def plain_def)
  moreover have "list_all fence_free ?xs"
    using e ms by (auto simp: list_all_iff plain_def fence_free_def nl_def)
  ultimately show ?thesis by blast
next
  case False
  let ?b = "fmt L (py_or (entry_point m) (JStr ''Server''))"
  let ?xs = "[CHR '' '' # ''   User[User] --> UI[Client]'' @ nl, CHR '' '' # (''   UI --> '' @ ?b) @ nl]
             @ map (dep_line ?b) (set_order L (deps_node (deps m) \<union> deps_python (deps m)))"
  have b: "plain ?b" using assms by (simp add: chart_names_plain_def)
  have "architecture_chart L m = fence_mermaid @ nl @ ''graph TD'' @ nl @ concat ?xs @ fence @ nl @ nl"
    unfolding architecture_chart_def if_not_P [OF False]
    by (simp add: component_lines_def Let_def)
  moreover have "list_all row ?xs"
    using b row_dep_line [OF b] by (auto simp: list_all_iff row_def plain_def nl_def)
  moreover have "list_all fence_free ?xs"
    using b fence_free_dep_line [OF b] by (auto simp: list_all_iff plain_def fence_free_def nl_def)
  ultimately show ?thesis by blast
qed

section \<open>The requirements manifest\<close>

text \<open>
  C2 as the code has it. A requirement line is a line that is neither blank nor a comment:
  stripped of white space it is not empty and does not start with \<open>#\<close>. For every readable
  requirements file of ASCII text in which each requirement line has no comparison operator,
  or has \<open>==\<close> as its first one, each requirement line adds one name to the Python
  dependency set and nothing else: the stripped text before the operator, or the whole
  stripped line when there is none. No version and no development flag is kept. The other
  dependency sets stay as they were, and the names that are Python test tools are appended to
  the tests in the order of the lines.
\<close>

theorem requirements_names_only:
  assumes "ascii s"
    and "\<forall>l\<in>set (file_lines s). strip l \<noteq> [] \<and> \<not> prefix ''#'' (strip l) \<longrightarrow> bare_or_pinned l"
  shows "deps_python (deps (parse_requirements (Text s) m))
           = deps_python (deps m)
             \<union> {strip (name_side l) | l. l \<in> set (file_lines s) \<and> strip l \<noteq> [] \<and> \<not> prefix ''#'' (strip l)} \<and>
         deps_node (deps (parse_requirements (Text s) m)) = deps_node (deps m) \<and>
         deps_java (deps (parse_requirements (Text s) m)) = deps_java (deps m) \<and>
         deps_go (deps (parse_requirements (Text s) m)) = deps_go (deps m) \<and>
         tests (parse_requirements (Text s) m)
           = tests m @ filter (\<lambda>d. d \<in> set python_test_tools)
               (map (\<lambda>l. strip (name_side l))
                  (filter (\<lambda>l. strip l \<noteq> [] \<and> \<not> prefix ''#'' (strip l)) (file_lines s)))"
proof -
  let ?keep = "\<lambda>l. strip l \<noteq> [] \<and> \<not> prefix ''#'' (strip l)"
  have k: "requirement_line = ?keep"
    by (simp add: requirement_line_def startswith_def fun_eq_iff)
  have n: "map requirement_name (filter ?keep (file_lines s))
         = map (\<lambda>l. strip (name_side l)) (filter ?keep (file_lines s))"
    using assms(2) by (intro map_cong refl) (simp add: requirement_name_regular)
  have names: "requirement_names (file_lines s)
         = map (\<lambda>l. strip (name_side l)) (filter ?keep (file_lines s))"
    by (simp add: requirement_names_def k n)
  have p: "parse_requirements (Text s) m
      = m\<lparr>deps := (deps m)\<lparr>deps_python := deps_python (deps m)
               \<union> set (map (\<lambda>l. strip (name_side l)) (filter ?keep (file_lines s)))\<rparr>,
           tests := tests m @ filter (\<lambda>d. d \<in> set python_test_tools)
               (map (\<lambda>l. strip (name_side l)) (filter ?keep (file_lines s)))\<rparr>"
    by (simp add: parse_requirements_def parse_requirements_body_def Let_def names)
  have s: "set (map (\<lambda>l. strip (name_side l)) (filter ?keep (file_lines s)))
      = {strip (name_side l) | l. l \<in> set (file_lines s) \<and> strip l \<noteq> [] \<and> \<not> prefix ''#'' (strip l)}"
    by auto
  show ?thesis unfolding p s by simp
qed

text \<open>
  The two lines \<open>flask==2.0.0\<close> and \<open>requests\<close> satisfy the hypotheses and add the two names
  \<open>flask\<close> and \<open>requests\<close>.
\<close>

theorem requirements_names_only_witness:
  "ascii ''flask==2.0.0\<newline>requests'' \<and>
   bare_or_pinned ''flask==2.0.0\<newline>'' \<and> bare_or_pinned ''requests'' \<and>
   deps_python (deps (parse_requirements (Text ''flask==2.0.0\<newline>requests'') init_metadata))
     = {''flask'', ''requests''} \<and>
   tests (parse_requirements (Text ''flask==2.0.0\<newline>requests'') init_metadata) = []"
proof -
  let ?s = "''flask==2.0.0\<newline>requests''"
  have l: "file_lines ?s = [''flask==2.0.0\<newline>'', ''requests'']"
    by (simp add: file_lines_def universal_newlines.simps lines_aux.simps)
  have b: "bare_or_pinned ''flask==2.0.0\<newline>''" "bare_or_pinned ''requests''"
    by (simp_all add: bare_or_pinned_def operators_def)
  have n: "name_side ''flask==2.0.0\<newline>'' = ''flask''" "name_side ''requests'' = ''requests''"
    by (simp_all add: name_side_def operators_def)
  have a: "ascii ?s" by (simp add: ascii_def)
  have h: "\<forall>l\<in>set (file_lines ?s). strip l \<noteq> [] \<and> \<not> prefix ''#'' (strip l) \<longrightarrow> bare_or_pinned l"
    unfolding l using b by simp
  have k: "strip ''flask==2.0.0\<newline>'' = ''flask==2.0.0''" "strip ''requests'' = ''requests''"
    "strip ''flask'' = ''flask''"
    by (simp_all add: strip_def lstrip_def rstrip_def is_space_def)
  have d: "deps_python (deps init_metadata) = {}" "tests init_metadata = []"
    by (simp_all add: init_metadata_def)
  have "{strip (name_side x) | x. x \<in> set (file_lines ?s) \<and> strip x \<noteq> [] \<and> \<not> prefix ''#'' (strip x)}
            = set (map (\<lambda>l. strip (name_side l))
                  (filter (\<lambda>l. strip l \<noteq> [] \<and> \<not> prefix ''#'' (strip l)) (file_lines ?s)))"
    by auto
  also have "\<dots> = {''flask'', ''requests''}"
    unfolding l using k n by simp
  finally have e: "{strip (name_side x) | x. x \<in> set (file_lines ?s) \<and> strip x \<noteq> [] \<and> \<not> prefix ''#'' (strip x)}
            = {''flask'', ''requests''}" .
  have f: "filter (\<lambda>d. d \<in> set python_test_tools)
               (map (\<lambda>l. strip (name_side l))
                  (filter (\<lambda>l. strip l \<noteq> [] \<and> \<not> prefix ''#'' (strip l)) (file_lines ?s))) = []"
    unfolding l using k n by (simp add: python_test_tools_def)
  from requirements_names_only [OF a h, of init_metadata] a b
  show ?thesis unfolding e f d by simp
qed

text \<open>
  The claim as it was stated fails at its own scenario: after the two lines \<open>flask==2.0.0\<close>
  and \<open>requests\<close> the metadata differs from the initial one only in the set of Python names,
  so the version \<open>2.0.0\<close> is nowhere in it, and a file that pins another version of
  \<open>flask\<close> gives the same metadata.
\<close>

theorem requirement_version_not_kept:
  "parse_requirements (Text ''flask==2.0.0\<newline>requests'') init_metadata
     = init_metadata\<lparr>deps := (deps init_metadata)\<lparr>deps_python := {''flask'', ''requests''}\<rparr>\<rparr> \<and>
   parse_requirements (Text ''flask==2.0.0'') init_metadata
     = parse_requirements (Text ''flask==9.9'') init_metadata"
  by (simp add: parse_requirements_def parse_requirements_body_def Let_def requirement_names_def
        file_lines_def requirement_name_def requirement_line_def strip_def lstrip_def rstrip_def is_space_def str_split_def
        startswith_def python_test_tools_def init_metadata_def insert_commute)

section \<open>The package manifest\<close>

text \<open>
  C3 as the code has it. For every package manifest that loads as an object whose
  \<open>dependencies\<close> and \<open>devDependencies\<close> are objects (or missing), every key under
  \<open>dependencies\<close> is added to the Node.js dependency set, and the other dependency sets
  stay as they were. The keys under \<open>devDependencies\<close> are recorded nowhere as
  dependencies: they only add the names of the known test tools to the list of tests. No
  version is kept: a manifest with the same keys and other values gives the same result.
\<close>

theorem package_json_names_only:
  assumes "read_strict f = Inr txt" and "json_loads L txt = Some (JObj kvs)"
    and "dict_get_obj kvs ''dependencies'' = JObj ds"
    and "dict_get_obj kvs ''devDependencies'' = JObj dev"
  shows "deps (parse_package_json L f m)
           = (deps m)\<lparr>deps_node := deps_node (deps m) \<union> fst ` set ds\<rparr> \<and>
         tests (parse_package_json L f m)
           = tests m @ filter (\<lambda>d. d \<in> set node_test_tools) (map fst ds @ map fst dev) \<and>
         (\<forall>kvs' ds' dev'.
            (\<forall>k. k \<noteq> ''dependencies'' \<and> k \<noteq> ''devDependencies'' \<longrightarrow> map_of kvs' k = map_of kvs k) \<and>
            dict_get_obj kvs' ''dependencies'' = JObj ds' \<and> map fst ds' = map fst ds \<and>
            dict_get_obj kvs' ''devDependencies'' = JObj dev' \<and> map fst dev' = map fst dev
            \<longrightarrow> package_json_data (JObj kvs') m = package_json_data (JObj kvs) m)"
proof -
  have p: "parse_package_json L f m = snd (package_json_data (JObj kvs) m)"
    using assms(1,2) by (simp add: parse_package_json_def parse_package_json_body_def)
  have d: "deps (parse_package_json L f m)
           = (deps m)\<lparr>deps_node := deps_node (deps m) \<union> fst ` set ds\<rparr>"
    unfolding p by (rule package_json_data_ok(2) [OF assms(3,4)])
  have t: "tests (parse_package_json L f m)
           = tests m @ filter (\<lambda>d. d \<in> set node_test_tools) (map fst ds @ map fst dev)"
    unfolding p by (rule package_json_data_ok(3) [OF assms(3,4)])
  have v: "package_json_data (JObj kvs') m = package_json_data (JObj kvs) m"
    if "(\<forall>k. k \<noteq> ''dependencies'' \<and> k \<noteq> ''devDependencies'' \<longrightarrow> map_of kvs' k = map_of kvs k) \<and>
        dict_get_obj kvs' ''dependencies'' = JObj ds' \<and> map fst ds' = map fst ds \<and>
        dict_get_obj kvs' ''devDependencies'' = JObj dev' \<and> map fst dev' = map fst dev"
    for kvs' ds' dev'
    using that assms(3,4) package_json_data_versions [of kvs' kvs ds ds' dev dev' m] by blast
  from d t v show ?thesis by blast
qed

theorem package_json_names_only_witness:
  "read_strict (Text express_text) = Inr express_text \<and>
   json_loads manifest_lib express_text = Some (JObj express_manifest) \<and>
   deps (parse_package_json manifest_lib (Text express_text) init_metadata)
     = (deps init_metadata)\<lparr>deps_node := {''express''}\<rparr> \<and>
   tests (parse_package_json manifest_lib (Text express_text) init_metadata) = []"
  using package_json_names_only
          [of "Text express_text" express_text manifest_lib express_manifest
              "[(''express'', JStr ''^4.18.0'')]" "[]" init_metadata]
  by (simp add: manifest_lib_def demo_lib_def express_manifest_def dict_get_obj_def
        node_test_tools_def init_metadata_def)

text \<open>
  The claim as written fails: a development dependency leaves the metadata as it was, and a
  runtime dependency leaves only its name.
\<close>

theorem dev_dependencies_and_versions_dropped:
  "package_json_data (JObj [(''devDependencies'', JObj [(''eslint'', JStr ''^8.0.0'')])]) init_metadata
     = (None, init_metadata) \<and>
   package_json_data (JObj [(''dependencies'', JObj [(''express'', JStr ''^4.18.0'')])]) init_metadata
     = (None, init_metadata\<lparr>deps := (deps init_metadata)\<lparr>deps_node := {''express''}\<rparr>\<rparr>)"
  by (simp add: package_json_data_def dict_get_def dict_get_obj_def Let_def node_test_tools_def init_metadata_def)

section \<open>Files that cannot be parsed\<close>

lemma parse_failure_leaves_metadata:
  "(read_strict f = Inl e \<longrightarrow> parse_requirements f m = m \<and> parse_package_json L f m = m) \<and>
   (read_strict f = Inr txt \<and> json_loads L txt = None \<longrightarrow> parse_package_json L f m = m) \<and>
   (read_ignore f = Inl e \<longrightarrow> analyze_code L fname ext f m = m)"
  by (simp add: parse_requirements_def parse_requirements_body_def parse_package_json_def
        parse_package_json_body_def analyze_code_def analyze_code_body_def)

text \<open>
  C4. A file that cannot be opened, decoded or loaded leaves the metadata as it was (the
  lemma above), but a package manifest that loads and is malformed can still end the run:
  the manifest \<open>{"name": 5}\<close> stores the number as the project name, and the synthesis of
  the description then raises \<open>AttributeError\<close> out of \<open>scan\<close> and out of
  \<open>generate_readme\<close>.
\<close>

theorem malformed_manifest_aborts_run:
  "scan manifest_lib (Dir [(''package.json'', File (Text name5_text))]) (new_scanner ''/srv/app'' [])
     = Inl AttributeError \<and>
   fst (generate_readme demo_env manifest_lib ''/srv/app'' ''Minimal'' [] app_world) = Inl AttributeError"
proof -
  have pj: "parse_package_json manifest_lib (Text name5_text) m = m\<lparr>project_name := JInt 5, scripts := JObj []\<rparr>" for m
    by (simp add: parse_package_json_def parse_package_json_body_def package_json_data_def
          manifest_lib_def demo_lib_def name5_text_def express_text_def dq_def dict_get_def
          dict_get_obj_def node_test_tools_def Let_def)
  have sc: "scan manifest_lib (Dir [(''package.json'', File (Text name5_text))]) s = Inl AttributeError"
    if "description (meta s) = JStr []" for s
    using that
    by (simp add: scan_def scan_tree_def scan_visit_def scan_file_def scan_config_names_def
          scan_manifest_def scan_source_def file_entries_def dir_names_def splitext_ext_def
          source_exts_def ci_files_def finalize_services_def infer_tech_stack_def
          generate_smart_description_def scan_license_def license_name_def add_language_def
          pj Let_def startswith_def endswith_def upper_def lower_def upper_char_def
          lower_char_def lower_letters_def upper_letters_def)
  have a: "scan manifest_lib (Dir [(''package.json'', File (Text name5_text))]) (new_scanner ''/srv/app'' [])
     = Inl AttributeError"
    by (rule sc) (simp add: new_scanner_def init_metadata_def)
  have b: "fst (generate_readme demo_env manifest_lib ''/srv/app'' ''Minimal'' [] app_world) = Inl AttributeError"
    by (simp add: generate_readme_def setup_path_def new_scanner_def is_remote_def startswith_def
          endswith_def app_world_def path_exists_def target_node_def Let_def sc
          setup_local_names_def demo_env_def init_metadata_def)
  from a b show ?thesis by simp
qed

section \<open>Denied directories\<close>

text \<open>
  C5. The walk never enters a directory whose name is in \<open>IGNORE_DIRS\<close>: no directory it
  visits has such a name on its path below the root, and no such name is among the
  subdirectories it keeps. Nothing inside a denied directory reaches the result of
  \<open>scan\<close>: the scan of a tree is the scan of the tree with every denied directory deleted,
  so two trees that differ only inside denied directories give the same metadata, services
  and outcome.
\<close>

theorem denied_directories_never_contribute:
  "(\<forall>(r, ds, fl) \<in> set (walk [] es).
      set r \<inter> set IGNORE_DIRS = {} \<and> set ds \<inter> set IGNORE_DIRS = {}) \<and>
   walk [] es = walk [] (prune es) \<and>
   scan L (Dir es) s = scan L (Dir (prune es)) s \<and>
   (prune es = prune es' \<longrightarrow> scan L (Dir es) s = scan L (Dir es') s)"
proof (intro conjI impI)
  show "\<forall>(r, ds, fl) \<in> set (walk [] es).
      set r \<inter> set IGNORE_DIRS = {} \<and> set ds \<inter> set IGNORE_DIRS = {}"
  proof (clarify, intro conjI)
    fix r ds fl
    assume v: "(r, ds, fl) \<in> set (walk [] es)"
    from walk_avoids(1) [OF v] show "set r \<inter> set IGNORE_DIRS = {}" by auto
    from walk_avoids(1) [OF v] show "set ds \<inter> set IGNORE_DIRS = {}" by blast
  qed
  show "walk [] es = walk [] (prune es)" by (rule walk_prune(1))
  show "scan L (Dir es) s = scan L (Dir (prune es)) s" by (rule scan_prune)
  assume "prune es = prune es'"
  then show "scan L (Dir es) s = scan L (Dir es') s"
    using scan_prune [of L es s] scan_prune [of L es' s] by simp
qed

theorem denied_directories_never_contribute_witness:
  "prune demo_tree =
     [(''app.py'', File (Text ''import flask'')), (''src'', Dir [(''util.py'', File Unreadable)])] \<and>
   map fst (walk [] demo_tree) = [[], [''src'']] \<and>
   scan demo_lib (Dir demo_tree) (new_scanner ''/srv/app'' [])
     = scan demo_lib
         (Dir [(''app.py'', File (Text ''import flask'')), (''src'', Dir [(''util.py'', File Unreadable)])])
         (new_scanner ''/srv/app'' [])"
proof -
  have p: "prune demo_tree =
     [(''app.py'', File (Text ''import flask'')), (''src'', Dir [(''util.py'', File Unreadable)])]"
    by (simp add: demo_tree_def IGNORE_DIRS_def)
  have w: "map fst (walk [] demo_tree) = [[], [''src'']]"
    by (simp add: demo_tree_def IGNORE_DIRS_def)
  show ?thesis
    using denied_directories_never_contribute
            [of demo_tree demo_lib "new_scanner ''/srv/app'' []" "prune demo_tree"] p w
    by simp
qed

section \<open>A directory without source files and manifests\<close>




section \<open>The two diagrams\<close>

text \<open>
  C8 as the code has it. When the names printed in the component chart (the entry node, the
  first six modules, the backend) have no backtick and no line break, each of the two
  diagrams has exactly one opening fence and, counted as the test suite counts it, exactly
  one closing fence; the opening fence is at the start and the last fence comes after it.
  The component chart declares \<open>graph TD\<close> on its first line and has no other line that
  starts with \<open>graph\<close>. The flow chart declares \<open>sequenceDiagram\<close>, once, and has no
  \<open>graph\<close> or \<open>flowchart\<close> declaration, hence no direction token.
\<close>

theorem diagrams_fenced_when_names_plain:
  assumes "chart_names_plain L m"
  shows "(\<forall>d \<in> {architecture_chart L m, flow_chart m}.
            str_count fence_mermaid d = 1 \<and>
            str_count fence d - str_count fence_mermaid d = 1 \<and>
            str_find fence_mermaid d = Some 0 \<and>
            (\<exists>j. str_rfind fence d = Some j \<and> 0 < j)) \<and>
         prefix (fence_mermaid @ nl @ ''graph TD'' @ nl) (architecture_chart L m) \<and>
         str_count decl (architecture_chart L m) = 1 \<and>
         prefix (fence_mermaid @ nl @ ''sequenceDiagram'' @ nl) (flow_chart m) \<and>
         str_count ''sequenceDiagram'' (flow_chart m) = 1 \<and>
         \<not> contains (flow_chart m) ''graph'' \<and> \<not> contains (flow_chart m) ''flowchart''"
proof -
  obtain xs where a: "architecture_chart L m
        = fence_mermaid @ nl @ ''graph TD'' @ nl @ concat xs @ fence @ nl @ nl"
    and r: "list_all row xs" and f: "list_all fence_free xs"
    using chart_shape [OF assms] by blast
  have fb: "fence_free (nl @ ''graph TD'' @ nl @ concat xs)"
    using f by (auto simp: fence_free_def nl_def list_all_iff)
  have a': "architecture_chart L m = fence_mermaid @ (nl @ ''graph TD'' @ nl @ concat xs) @ fence @ (nl @ nl)"
    by (simp add: a)
  have A: "str_count fence_mermaid (architecture_chart L m) = 1"
    "str_count fence (architecture_chart L m) = 2"
    "str_find fence_mermaid (architecture_chart L m) = Some 0"
    "\<exists>j. str_rfind fence (architecture_chart L m) = Some j \<and> 0 < j"
    unfolding a' using framed [OF fb, of "nl @ nl"] by (simp_all add: fence_mermaid_def)
  obtain b where w: "flow_chart m = fence_mermaid @ b @ fence @ []" and wb: "fence_free b"
    using flow_shape [of "has_db m"] by (auto simp: flow_chart_def)
  have W: "str_count fence_mermaid (flow_chart m) = 1"
    "str_count fence (flow_chart m) = 2"
    "str_find fence_mermaid (flow_chart m) = Some 0"
    "\<exists>j. str_rfind fence (flow_chart m) = Some j \<and> 0 < j"
    unfolding w using framed [OF wb, of "[]"] by (simp_all add: fence_mermaid_def)
  have P: "prefix (fence_mermaid @ nl @ ''graph TD'' @ nl) (architecture_chart L m)"
    unfolding a by simp
  have D: "str_count decl (architecture_chart L m) = 1"
    unfolding a by (rule decl_once [OF r])
  have Q: "prefix (fence_mermaid @ nl @ ''sequenceDiagram'' @ nl) (flow_chart m)"
    by (simp add: flow_chart_def flow_text_def)
  have S: "str_count ''sequenceDiagram'' (flow_chart m) = 1"
    "\<not> contains (flow_chart m) ''graph''" "\<not> contains (flow_chart m) ''flowchart''"
    using flow_closed by (cases "has_db m"; simp add: flow_chart_def)+
  from A W P D Q S show ?thesis by simp
qed

theorem diagrams_fenced_when_names_plain_witness:
  "chart_names_plain demo_lib init_metadata \<and>
   str_count fence_mermaid (architecture_chart demo_lib init_metadata) = 1 \<and>
   str_count fence (architecture_chart demo_lib init_metadata)
     - str_count fence_mermaid (architecture_chart demo_lib init_metadata) = 1 \<and>
   str_count fence_mermaid (flow_chart init_metadata) = 1 \<and>
   str_count ''sequenceDiagram'' (flow_chart init_metadata) = 1"
proof -
  have h: "chart_names_plain demo_lib init_metadata"
    by (simp add: chart_names_plain_def plain_def fence_free_def chart_entry_def py_or_def fmt_def
          init_metadata_def endswith_def)
  from diagrams_fenced_when_names_plain [OF h] h show ?thesis by auto
qed

text \<open>
  The claim as written fails at the flow chart of a project in which nothing was found: it
  is a sequence diagram, which has no direction, so it holds no \<open>graph\<close> or \<open>flowchart\<close>
  declaration and none of the direction tokens \<open>TD\<close>, \<open>TB\<close>, \<open>BT\<close>, \<open>LR\<close>, \<open>RL\<close>.
\<close>

theorem flow_chart_has_no_direction:
  "prefix (fence_mermaid @ nl @ ''sequenceDiagram'' @ nl) (flow_chart init_metadata) \<and>
   \<not> contains (flow_chart init_metadata) ''graph'' \<and>
   \<not> contains (flow_chart init_metadata) ''flowchart'' \<and>
   \<not> contains (flow_chart init_metadata) ''TD'' \<and>
   \<not> contains (flow_chart init_metadata) ''TB'' \<and>
   \<not> contains (flow_chart init_metadata) ''BT'' \<and>
   \<not> contains (flow_chart init_metadata) ''LR'' \<and>
   \<not> contains (flow_chart init_metadata) ''RL''"
proof -
  have "has_db init_metadata = False"
    by (simp add: has_db_def init_metadata_def)
  then have f: "flow_chart init_metadata = flow_text False"
    by (simp add: flow_chart_def)
  have p: "prefix (fence_mermaid @ nl @ ''sequenceDiagram'' @ nl) (flow_text False)"
    by (simp add: flow_text_def)
  have d: "\<not> contains (flow_text False) ''TD''" "\<not> contains (flow_text False) ''TB''"
    "\<not> contains (flow_text False) ''BT''" "\<not> contains (flow_text False) ''LR''"
    "\<not> contains (flow_text False) ''RL''"
    by code_simp+
  from p d flow_closed show ?thesis unfolding f by simp
qed

section \<open>The ephemeral directory\<close>





section \<open>Remote or local: the decision and its consequences\<close>



end
